theory Spec2Isabelle
  imports Complex_Main "HOL-Library.Option_ord" "HOL-Library.AList"
begin

section \<open>Python values shared by the models\<close>

text \<open>
  Exceptions of the Python source become values. Every \<open>raise\<close> that a modelled
  function can reach is one of these; a function that can raise returns
  \<open>py_error + 'a\<close> with \<open>Inl\<close> for the exception.
\<close>

datatype py_error =
  IndexError | KeyError | ValueError | ZeroDivisionError | RuntimeError | TypeError | OSError

text \<open>Sequencing of fallible steps: the first exception aborts the rest.\<close>

definition bind_err :: "py_error + 'a \<Rightarrow> ('a \<Rightarrow> py_error + 'b) \<Rightarrow> py_error + 'b" where
  "bind_err r f = (case r of Inl e \<Rightarrow> Inl e | Inr v \<Rightarrow> f v)"

section \<open>models/dqn.py: ReplayBuffer\<close>

text \<open>
  A transition is the tuple \<open>(state, action, reward, next_state, done)\<close> that
  \<open>ReplayBuffer.push\<close> builds. Floats are modelled as reals, Python ints as \<open>int\<close>.
\<close>

type_synonym transition = "real list \<times> int \<times> real \<times> real list \<times> bool"

text \<open>
  \<open>self.buffer = deque(maxlen=capacity)\<close>: the deque keeps its bound next to its
  content. \<open>deque\<close> refuses a negative bound at construction, so the bound is a \<open>nat\<close>.
\<close>

record ReplayBuffer =
  maxlen :: nat
  buffer :: "transition list"

definition ReplayBuffer_init :: "nat \<Rightarrow> ReplayBuffer" where
  "ReplayBuffer_init capacity = \<lparr>maxlen = capacity, buffer = []\<rparr>"

text \<open>
  \<open>deque.append\<close> on a bounded deque: the item is appended on the right and, when the
  deque is then longer than \<open>maxlen\<close>, one item is discarded from the left.
\<close>

definition deque_append :: "nat \<Rightarrow> 'a list \<Rightarrow> 'a \<Rightarrow> 'a list" where
  "deque_append m xs x = (let ys = xs @ [x] in if m < length ys then tl ys else ys)"

definition ReplayBuffer_push ::
  "ReplayBuffer \<Rightarrow> real list \<Rightarrow> int \<Rightarrow> real \<Rightarrow> real list \<Rightarrow> bool \<Rightarrow> ReplayBuffer" where
  "ReplayBuffer_push rb state action reward next_state done =
     rb\<lparr>buffer := deque_append (maxlen rb) (buffer rb) (state, action, reward, next_state, done)\<rparr>"

definition ReplayBuffer_len :: "ReplayBuffer \<Rightarrow> nat" where
  "ReplayBuffer_len rb = length (buffer rb)"

text \<open>A sequence of \<open>push\<close> calls, oldest call first.\<close>

fun push_all :: "ReplayBuffer \<Rightarrow> transition list \<Rightarrow> ReplayBuffer" where
  "push_all rb [] = rb"
| "push_all rb ((s, a, r, s', d) # ts) = push_all (ReplayBuffer_push rb s a r s' d) ts"

text \<open>
  \<open>random.sample(self.buffer, batch_size)\<close> raises \<open>ValueError\<close> for a negative sample
  size or one larger than the population. The positions it picks are the random draw
  \<open>idxs\<close> (distinct positions of the buffer, \<open>batch_size\<close> of them). The unpacking
  \<open>states, actions, rewards, next_states, dones = zip(*batch)\<close> raises \<open>ValueError\<close> on an
  empty batch. \<open>valid_sample_draw\<close> is what the generator guarantees of its draw.
\<close>

definition ReplayBuffer_sample ::
  "ReplayBuffer \<Rightarrow> int \<Rightarrow> nat list \<Rightarrow> py_error + transition list" where
  "ReplayBuffer_sample rb batch_size idxs =
     (if batch_size < 0 \<or> int (length (buffer rb)) < batch_size then Inl ValueError
      else if batch_size = 0 then Inl ValueError
      else Inr (map (\<lambda>i. buffer rb ! i) idxs))"

definition valid_sample_draw :: "ReplayBuffer \<Rightarrow> int \<Rightarrow> nat list \<Rightarrow> bool" where
  "valid_sample_draw rb batch_size idxs =
     (int (length idxs) = batch_size \<and> distinct idxs \<and> list_all (\<lambda>i. i < length (buffer rb)) idxs)"

section \<open>Tensors and layers used by the networks\<close>

text \<open>
  A one-dimensional tensor is a list of reals; rounding, infinities and NaN of the
  floating-point arithmetic are outside the model. A batch is processed sample by sample.
\<close>

definition dot :: "real list \<Rightarrow> real list \<Rightarrow> real" where
  "dot xs ys = sum_list (map2 (*) xs ys)"

text \<open>
  \<open>nn.Linear\<close>: \<open>weight\<close> has one row per output feature. A vector whose length is
  not the layer's input size raises \<open>RuntimeError\<close>.
\<close>

record Linear =
  weight :: "real list list"
  bias :: "real list"

definition Linear_forward :: "Linear \<Rightarrow> real list \<Rightarrow> py_error + real list" where
  "Linear_forward l x =
     (if list_all (\<lambda>row. length row = length x) (weight l) \<and> length (bias l) = length (weight l)
      then Inr (map2 (\<lambda>row b. dot row x + b) (weight l) (bias l))
      else Inl RuntimeError)"


definition ReLU :: "real list \<Rightarrow> real list" where
  "ReLU xs = map (max 0) xs"

text \<open>
  \<open>nn.Dropout(0.2)\<close>. In training mode every unit is zeroed with probability \<open>0.2\<close>
  and the kept units are scaled by \<open>1 / (1 - 0.2)\<close>; in evaluation mode the layer is
  the identity. The random choice is the draw \<open>keep\<close>: unit \<open>i\<close> survives iff \<open>keep i\<close>.
\<close>

definition Dropout :: "bool \<Rightarrow> (nat \<Rightarrow> bool) \<Rightarrow> real list \<Rightarrow> real list" where
  "Dropout train_flag keep xs =
     (if train_flag then map (\<lambda>i. if keep i then xs ! i / (1 - 0.2) else 0) [0..<length xs]
      else xs)"

text \<open>The draws of one forward pass: dropout layer number, then unit.\<close>

type_synonym dropout_draw = "nat \<Rightarrow> nat \<Rightarrow> bool"

text \<open>
  \<open>QNetwork\<close>, \<open>PolicyNetwork\<close>, \<open>ActorNetwork\<close> and \<open>CriticNetwork\<close> are the same
  \<open>nn.Sequential\<close>: Linear, ReLU, Dropout, Linear, ReLU, Dropout, Linear (entries 0, 3
  and 6 carry parameters). \<open>train_mode\<close> is the module's \<open>training\<close> flag:
  \<open>nn.Module.__init__\<close> sets it, and only \<open>.eval()\<close> / \<open>.train()\<close> change it.
\<close>

record QNetwork =
  network_0 :: Linear
  network_3 :: Linear
  network_6 :: Linear
  train_mode :: bool

type_synonym PolicyNetwork = QNetwork
type_synonym ActorNetwork = QNetwork
type_synonym CriticNetwork = QNetwork

definition QNetwork_init :: "Linear \<Rightarrow> Linear \<Rightarrow> Linear \<Rightarrow> QNetwork" where
  "QNetwork_init w0 w3 w6 = \<lparr>network_0 = w0, network_3 = w3, network_6 = w6, train_mode = True\<rparr>"

definition QNetwork_forward :: "QNetwork \<Rightarrow> dropout_draw \<Rightarrow> real list \<Rightarrow> py_error + real list" where
  "QNetwork_forward n draw state =
     bind_err (Linear_forward (network_0 n) state) (\<lambda>h0.
     bind_err (Linear_forward (network_3 n) (Dropout (train_mode n) (draw 0) (ReLU h0))) (\<lambda>h1.
     Linear_forward (network_6 n) (Dropout (train_mode n) (draw 1) (ReLU h1))))"


text \<open>
  \<open>DuelingQNetwork\<close>: a feature layer (Linear, ReLU, Dropout), a value stream and an
  advantage stream (Linear, ReLU, Linear each). The value stream yields one number,
  which is broadcast over the actions.
\<close>

record DuelingQNetwork =
  feature_layer_0 :: Linear
  value_stream_0 :: Linear
  value_stream_2 :: Linear
  advantage_stream_0 :: Linear
  advantage_stream_2 :: Linear
  dueling_train_mode :: bool

definition mean :: "real list \<Rightarrow> real" where
  "mean xs = sum_list xs / real (length xs)"

definition DuelingQNetwork_init ::
  "Linear \<Rightarrow> Linear \<Rightarrow> Linear \<Rightarrow> Linear \<Rightarrow> Linear \<Rightarrow> DuelingQNetwork" where
  "DuelingQNetwork_init f0 v0 v2 a0 a2 =
     \<lparr>feature_layer_0 = f0, value_stream_0 = v0, value_stream_2 = v2,
      advantage_stream_0 = a0, advantage_stream_2 = a2, dueling_train_mode = True\<rparr>"

definition DuelingQNetwork_forward ::
  "DuelingQNetwork \<Rightarrow> dropout_draw \<Rightarrow> real list \<Rightarrow> py_error + real list" where
  "DuelingQNetwork_forward n draw state =
     bind_err (Linear_forward (feature_layer_0 n) state) (\<lambda>f.
     let features = Dropout (dueling_train_mode n) (draw 0) (ReLU f) in
     bind_err (Linear_forward (value_stream_0 n) features) (\<lambda>v0.
     bind_err (Linear_forward (value_stream_2 n) (ReLU v0)) (\<lambda>val.
     bind_err (Linear_forward (advantage_stream_0 n) features) (\<lambda>a0.
     bind_err (Linear_forward (advantage_stream_2 n) (ReLU a0)) (\<lambda>advantage.
     case val of
       [v] \<Rightarrow> Inr (map (\<lambda>a. v + (a - mean advantage)) advantage)
     | _ \<Rightarrow> Inl RuntimeError)))))"


text \<open>
  \<open>self.q_network\<close> holds a \<open>QNetwork\<close> or, in \<open>DuelingDQNAgent\<close>, a \<open>DuelingQNetwork\<close>;
  calling it dispatches on the class.
\<close>

datatype net = QNet QNetwork | DuelingNet DuelingQNetwork

definition net_forward :: "net \<Rightarrow> dropout_draw \<Rightarrow> real list \<Rightarrow> py_error + real list" where
  "net_forward n draw state =
     (case n of QNet q \<Rightarrow> QNetwork_forward q draw state
              | DuelingNet d \<Rightarrow> DuelingQNetwork_forward d draw state)"


text \<open>
  A module's \<open>state_dict()\<close> holds its parameter tensors and nothing else (not the
  \<open>training\<close> flag). \<open>load_state_dict\<close> is strict: keys of another architecture or a
  tensor of another size raise \<open>RuntimeError\<close>; the receiving module keeps its flag.
\<close>

datatype net_state =
    QNetState Linear Linear Linear
  | DuelingState Linear Linear Linear Linear Linear

definition Linear_dims :: "Linear \<Rightarrow> nat list \<times> nat" where
  "Linear_dims l = (map length (weight l), length (bias l))"

definition net_state_dict :: "net \<Rightarrow> net_state" where
  "net_state_dict n =
     (case n of
        QNet q \<Rightarrow> QNetState (network_0 q) (network_3 q) (network_6 q)
      | DuelingNet d \<Rightarrow> DuelingState (feature_layer_0 d) (value_stream_0 d) (value_stream_2 d)
                          (advantage_stream_0 d) (advantage_stream_2 d))"

fun net_load_state_dict :: "net \<Rightarrow> net_state \<Rightarrow> py_error + net" where
  "net_load_state_dict (QNet q) (QNetState w0 w3 w6) =
     (if Linear_dims w0 = Linear_dims (network_0 q) \<and> Linear_dims w3 = Linear_dims (network_3 q) \<and>
         Linear_dims w6 = Linear_dims (network_6 q)
      then Inr (QNet (q\<lparr>network_0 := w0, network_3 := w3, network_6 := w6\<rparr>))
      else Inl RuntimeError)"
| "net_load_state_dict (DuelingNet d) (DuelingState f0 v0 v2 a0 a2) =
     (if Linear_dims f0 = Linear_dims (feature_layer_0 d) \<and>
         Linear_dims v0 = Linear_dims (value_stream_0 d) \<and>
         Linear_dims v2 = Linear_dims (value_stream_2 d) \<and>
         Linear_dims a0 = Linear_dims (advantage_stream_0 d) \<and>
         Linear_dims a2 = Linear_dims (advantage_stream_2 d)
      then Inr (DuelingNet (d\<lparr>feature_layer_0 := f0, value_stream_0 := v0, value_stream_2 := v2,
                               advantage_stream_0 := a0, advantage_stream_2 := a2\<rparr>))
      else Inl RuntimeError)"
| "net_load_state_dict _ _ = Inl RuntimeError"

text \<open>
  \<open>optim.Adam\<close>: the learning rate of its parameter group and its running moment
  estimates. The step itself (\<open>zero_grad\<close>, \<open>backward\<close>, gradient clipping, \<open>step\<close>) is
  the differentiation backend's and enters the agents as a function argument.
\<close>

record Adam =
  lr :: real
  moments :: "real list"

definition Adam_init :: "real \<Rightarrow> Adam" where
  "Adam_init learning_rate = \<lparr>lr = learning_rate, moments = []\<rparr>"

section \<open>Array helpers\<close>

text \<open>
  Indexing an array of length \<open>n\<close> with a Python int: a negative index counts from the
  end, anything outside \<open>[-n, n)\<close> raises \<open>IndexError\<close>.
\<close>

definition np_index :: "nat \<Rightarrow> int \<Rightarrow> py_error + nat" where
  "np_index n i =
     (if 0 \<le> i \<and> i < int n then Inr (nat i)
      else if - int n \<le> i \<and> i < 0 then Inr (nat (i + int n))
      else Inl IndexError)"

text \<open>\<open>xs[idxs]\<close> with a list of indices.\<close>

fun np_take :: "'a list \<Rightarrow> int list \<Rightarrow> py_error + 'a list" where
  "np_take xs [] = Inr []"
| "np_take xs (i # idxs) =
     bind_err (np_index (length xs) i) (\<lambda>j.
     bind_err (np_take xs idxs) (\<lambda>rest. Inr (xs ! j # rest)))"

text \<open>\<open>xs[idxs] = vs\<close> with a list of indices and as many values.\<close>

fun np_put :: "'a list \<Rightarrow> int list \<Rightarrow> 'a list \<Rightarrow> py_error + 'a list" where
  "np_put xs [] vs = Inr xs"
| "np_put xs (i # idxs) [] = Inl ValueError"
| "np_put xs (i # idxs) (v # vs) =
     bind_err (np_index (length xs) i) (\<lambda>j. np_put (xs[j := v]) idxs vs)"


text \<open>
  \<open>np.argmax\<close> and the index part of \<open>torch.max\<close>: the first position of a largest
  entry; an empty array raises \<open>ValueError\<close>.
\<close>

fun argmax_from :: "'a::linorder list \<Rightarrow> nat \<Rightarrow> nat \<Rightarrow> 'a \<Rightarrow> nat" where
  "argmax_from [] i best v = best"
| "argmax_from (x # xs) i best v =
     (if v < x then argmax_from xs (Suc i) i x else argmax_from xs (Suc i) best v)"

definition argmax :: "'a::linorder list \<Rightarrow> py_error + nat" where
  "argmax xs = (case xs of [] \<Rightarrow> Inl ValueError | x # rest \<Rightarrow> Inr (argmax_from rest 1 0 x))"

text \<open>
  \<open>random.choice(seq)\<close> is \<open>seq[randbelow(len(seq))]\<close>; the generator's draw \<open>k\<close>
  is reduced below the length. An empty sequence raises \<open>IndexError\<close>.
\<close>

definition random_choice :: "'a list \<Rightarrow> nat \<Rightarrow> py_error + 'a" where
  "random_choice xs k = (if xs = [] then Inl IndexError else Inr (xs ! (k mod length xs)))"

section \<open>models/dqn.py: DQNAgent, DoubleDQNAgent, DuelingDQNAgent\<close>

record DQNAgent =
  state_size :: nat
  action_size :: nat
  gamma :: real
  epsilon :: real
  epsilon_min :: real
  epsilon_decay :: real
  batch_size :: int
  target_update_freq :: int
  update_counter :: int
  q_network :: net
  target_network :: net
  optimizer :: Adam
  memory :: ReplayBuffer

text \<open>
  \<open>DQNAgent.__init__\<close>. The freshly initialised layers \<open>w0 w3 w6\<close> are the random
  initialisation of \<open>self.q_network\<close>; the target network is built and at once
  overwritten with the online parameters.
\<close>

definition DQNAgent_init ::
  "nat \<Rightarrow> nat \<Rightarrow> real \<Rightarrow> real \<Rightarrow> real \<Rightarrow> real \<Rightarrow> real \<Rightarrow> nat \<Rightarrow> int \<Rightarrow> int \<Rightarrow>
   Linear \<Rightarrow> Linear \<Rightarrow> Linear \<Rightarrow> DQNAgent" where
  "DQNAgent_init state_sz action_sz learning_rate gamma0 epsilon0 epsilon_min0 epsilon_decay0
       buffer_size batch_size0 target_update_freq0 w0 w3 w6 =
     \<lparr>state_size = state_sz, action_size = action_sz, gamma = gamma0, epsilon = epsilon0,
      epsilon_min = epsilon_min0, epsilon_decay = epsilon_decay0, batch_size = batch_size0,
      target_update_freq = target_update_freq0, update_counter = 0,
      q_network = QNet (QNetwork_init w0 w3 w6),
      target_network = QNet (QNetwork_init w0 w3 w6),
      optimizer = Adam_init learning_rate,
      memory = ReplayBuffer_init buffer_size\<rparr>"

text \<open>
  \<open>DuelingDQNAgent.__init__\<close>: the base constructor runs with the caller's arguments,
  then both networks are replaced by dueling ones (\<open>f0 \<dots> a2\<close> is their random
  initialisation) and the optimizer by \<open>optim.Adam(\<dots>, lr=0.001)\<close>.
\<close>

definition DuelingDQNAgent_init ::
  "nat \<Rightarrow> nat \<Rightarrow> real \<Rightarrow> real \<Rightarrow> real \<Rightarrow> real \<Rightarrow> real \<Rightarrow> nat \<Rightarrow> int \<Rightarrow> int \<Rightarrow>
   Linear \<Rightarrow> Linear \<Rightarrow> Linear \<Rightarrow> Linear \<Rightarrow> Linear \<Rightarrow> Linear \<Rightarrow> Linear \<Rightarrow> Linear \<Rightarrow> DQNAgent" where
  "DuelingDQNAgent_init state_sz action_sz learning_rate gamma0 epsilon0 epsilon_min0
       epsilon_decay0 buffer_size batch_size0 target_update_freq0 w0 w3 w6 f0 v0 v2 a0 a2 =
     (let base = DQNAgent_init state_sz action_sz learning_rate gamma0 epsilon0 epsilon_min0
                   epsilon_decay0 buffer_size batch_size0 target_update_freq0 w0 w3 w6
      in base\<lparr>q_network := DuelingNet (DuelingQNetwork_init f0 v0 v2 a0 a2),
              target_network := DuelingNet (DuelingQNetwork_init f0 v0 v2 a0 a2),
              optimizer := Adam_init 0.001\<rparr>)"

text \<open>
  \<open>select_action\<close>. \<open>u\<close> is the value of \<open>random.random()\<close>, \<open>k\<close> the draw behind
  \<open>random.choice\<close>, \<open>draw\<close> the dropout draws of the forward pass. \<open>-np.inf\<close> is \<open>None\<close>
  in the order on \<open>real option\<close>, which puts \<open>None\<close> below every \<open>Some\<close>.
\<close>

definition DQNAgent_select_action ::
  "DQNAgent \<Rightarrow> real list \<Rightarrow> int list \<Rightarrow> bool \<Rightarrow> real \<Rightarrow> nat \<Rightarrow> dropout_draw \<Rightarrow> py_error + int" where
  "DQNAgent_select_action agent state available_actions training u k draw =
     (if training \<and> u < epsilon agent then random_choice available_actions k
      else
        bind_err (net_forward (q_network agent) draw state) (\<lambda>q_values.
        bind_err (np_take (map Some q_values) available_actions) (\<lambda>vals.
        bind_err (np_put (replicate (action_size agent) None) available_actions vals) (\<lambda>masked_q.
        bind_err (argmax masked_q) (\<lambda>a. Inr (int a))))))"

definition DQNAgent_remember ::
  "DQNAgent \<Rightarrow> real list \<Rightarrow> int \<Rightarrow> real \<Rightarrow> real list \<Rightarrow> bool \<Rightarrow> DQNAgent" where
  "DQNAgent_remember agent state action reward next_state done =
     agent\<lparr>memory := ReplayBuffer_push (memory agent) state action reward next_state done\<rparr>"

text \<open>A network applied to a batch; sample \<open>i\<close> uses the dropout draws \<open>draws i\<close>.\<close>

fun forward_batch ::
  "net \<Rightarrow> (nat \<Rightarrow> dropout_draw) \<Rightarrow> nat \<Rightarrow> real list list \<Rightarrow> py_error + real list list" where
  "forward_batch n draws i [] = Inr []"
| "forward_batch n draws i (s # ss) =
     bind_err (net_forward n (draws i) s) (\<lambda>q.
     bind_err (forward_batch n draws (Suc i) ss) (\<lambda>qs. Inr (q # qs)))"

text \<open>
  \<open>t.gather(1, idx.unsqueeze(1)).squeeze(1)\<close>: entry \<open>idx[i]\<close> of row \<open>i\<close>. \<open>gather\<close> takes
  no negative index; an index outside the row raises \<open>RuntimeError\<close>.
\<close>

fun gather :: "real list list \<Rightarrow> int list \<Rightarrow> py_error + real list" where
  "gather [] [] = Inr []"
| "gather (row # rows) (i # idxs) =
     (if 0 \<le> i \<and> i < int (length row)
      then bind_err (gather rows idxs) (\<lambda>rest. Inr (row ! nat i # rest))
      else Inl RuntimeError)"
| "gather _ _ = Inl RuntimeError"

text \<open>\<open>t.max(1)\<close>: per row the largest entry (\<open>[0]\<close>) and its position (\<open>[1]\<close>).\<close>

fun max_indices :: "real list list \<Rightarrow> py_error + nat list" where
  "max_indices [] = Inr []"
| "max_indices (row # rows) =
     bind_err (argmax row) (\<lambda>j. bind_err (max_indices rows) (\<lambda>rest. Inr (j # rest)))"

fun max_values :: "real list list \<Rightarrow> py_error + real list" where
  "max_values [] = Inr []"
| "max_values (row # rows) =
     bind_err (argmax row) (\<lambda>j. bind_err (max_values rows) (\<lambda>rest. Inr (row ! j # rest)))"

text \<open>\<open>rewards + (1 - dones) * self.gamma * next_q\<close>, elementwise over the batch.\<close>

definition bootstrap_target :: "real \<Rightarrow> transition list \<Rightarrow> real list \<Rightarrow> real list" where
  "bootstrap_target g batch next_q =
     map2 (\<lambda>(s, a, r, s', d) nq. r + (1 - of_bool d) * g * nq) batch next_q"

text \<open>\<open>nn.MSELoss()\<close> of two vectors.\<close>

definition MSELoss :: "real list \<Rightarrow> real list \<Rightarrow> real" where
  "MSELoss xs ys = mean (map2 (\<lambda>x y. (x - y)\<^sup>2) xs ys)"

text \<open>
  The loss as a function of the online network's parameters \<open>theta\<close>: this is the graph
  that \<open>loss.backward()\<close> differentiates. \<open>current_q\<close> is recomputed from \<open>theta\<close> (with the
  dropout draws of the pass that built it); the targets were computed under
  \<open>torch.no_grad()\<close> and enter as the constants \<open>target_q\<close>.
\<close>

definition dqn_objective ::
  "transition list \<Rightarrow> real list \<Rightarrow> (nat \<Rightarrow> dropout_draw) \<Rightarrow> net \<Rightarrow> py_error + real" where
  "dqn_objective batch target_q draws theta =
     bind_err (forward_batch theta draws 0 (map (\<lambda>(s, a, r, s', d). s) batch)) (\<lambda>qs.
     bind_err (gather qs (map (\<lambda>(s, a, r, s', d). a) batch)) (\<lambda>current_q.
     Inr (MSELoss current_q target_q)))"

text \<open>
  The differentiation backend: \<open>zero_grad\<close>, \<open>loss.backward()\<close>, \<open>clip_grad_norm_\<close> and
  \<open>optimizer.step()\<close>, given the online network, the optimizer and the loss as a function
  of the online parameters. It returns the new online network and optimizer.
\<close>

type_synonym dqn_backend = "net \<Rightarrow> Adam \<Rightarrow> (net \<Rightarrow> py_error + real) \<Rightarrow> net \<times> Adam"

text \<open>
  The part of \<open>train_step\<close> shared by \<open>DQNAgent\<close> and \<open>DoubleDQNAgent\<close> once the targets
  are known: loss, optimizer step, counter, hard target sync, epsilon decay.
\<close>

definition dqn_apply_update ::
  "dqn_backend \<Rightarrow> DQNAgent \<Rightarrow> transition list \<Rightarrow> real list \<Rightarrow> real list \<Rightarrow>
   (nat \<Rightarrow> dropout_draw) \<Rightarrow> py_error + DQNAgent \<times> real" where
  "dqn_apply_update optimize agent batch current_q target_q draws =
     (let loss = MSELoss current_q target_q;
          (qn, opt) = optimize (q_network agent) (optimizer agent)
                        (dqn_objective batch target_q draws);
          agent1 = agent\<lparr>q_network := qn, optimizer := opt,
                         update_counter := update_counter agent + 1\<rparr>
      in if target_update_freq agent1 = 0 then Inl ZeroDivisionError
         else
           bind_err (if update_counter agent1 mod target_update_freq agent1 = 0
                     then bind_err (net_load_state_dict (target_network agent1)
                                       (net_state_dict (q_network agent1)))
                            (\<lambda>t. Inr (agent1\<lparr>target_network := t\<rparr>))
                     else Inr agent1) (\<lambda>agent2.
           let agent3 = (if epsilon agent2 > epsilon_min agent2
                         then agent2\<lparr>epsilon := epsilon agent2 * epsilon_decay agent2\<rparr>
                         else agent2)
           in Inr (agent3, loss)))"

text \<open>
  \<open>DQNAgent.train_step\<close>. \<open>idxs\<close> is the draw of \<open>random.sample\<close>; \<open>draws p\<close> are the
  dropout draws of forward pass number \<open>p\<close>.
\<close>

definition DQNAgent_train_step ::
  "dqn_backend \<Rightarrow> DQNAgent \<Rightarrow> nat list \<Rightarrow> (nat \<Rightarrow> nat \<Rightarrow> dropout_draw) \<Rightarrow>
   py_error + DQNAgent \<times> real" where
  "DQNAgent_train_step optimize agent idxs draws =
     (if int (ReplayBuffer_len (memory agent)) < batch_size agent then Inr (agent, 0)
      else
        bind_err (ReplayBuffer_sample (memory agent) (batch_size agent) idxs) (\<lambda>batch.
        bind_err (forward_batch (q_network agent) (draws 0) 0 (map (\<lambda>(s, a, r, s', d). s) batch)) (\<lambda>qs.
        bind_err (gather qs (map (\<lambda>(s, a, r, s', d). a) batch)) (\<lambda>current_q.
        bind_err (forward_batch (target_network agent) (draws 1) 0
                    (map (\<lambda>(s, a, r, s', d). s') batch)) (\<lambda>tqs.
        bind_err (max_values tqs) (\<lambda>next_q.
        dqn_apply_update optimize agent batch current_q
          (bootstrap_target (gamma agent) batch next_q) (draws 0)))))))"

text \<open>
  \<open>DoubleDQNAgent.train_step\<close>: the online network picks the next action, the target
  network values it.
\<close>

definition double_dqn_target ::
  "DQNAgent \<Rightarrow> transition list \<Rightarrow> (nat \<Rightarrow> dropout_draw) \<Rightarrow> (nat \<Rightarrow> dropout_draw) \<Rightarrow>
   py_error + real list" where
  "double_dqn_target agent batch draws_online draws_target =
     bind_err (forward_batch (q_network agent) draws_online 0
                 (map (\<lambda>(s, a, r, s', d). s') batch)) (\<lambda>oqs.
     bind_err (max_indices oqs) (\<lambda>next_actions.
     bind_err (forward_batch (target_network agent) draws_target 0
                 (map (\<lambda>(s, a, r, s', d). s') batch)) (\<lambda>tqs.
     bind_err (gather tqs (map int next_actions)) (\<lambda>next_q.
     Inr (bootstrap_target (gamma agent) batch next_q)))))"

definition DoubleDQNAgent_train_step ::
  "dqn_backend \<Rightarrow> DQNAgent \<Rightarrow> nat list \<Rightarrow> (nat \<Rightarrow> nat \<Rightarrow> dropout_draw) \<Rightarrow>
   py_error + DQNAgent \<times> real" where
  "DoubleDQNAgent_train_step optimize agent idxs draws =
     (if int (ReplayBuffer_len (memory agent)) < batch_size agent then Inr (agent, 0)
      else
        bind_err (ReplayBuffer_sample (memory agent) (batch_size agent) idxs) (\<lambda>batch.
        bind_err (forward_batch (q_network agent) (draws 0) 0 (map (\<lambda>(s, a, r, s', d). s) batch)) (\<lambda>qs.
        bind_err (gather qs (map (\<lambda>(s, a, r, s', d). a) batch)) (\<lambda>current_q.
        bind_err (double_dqn_target agent batch (draws 1) (draws 2)) (\<lambda>target_q.
        dqn_apply_update optimize agent batch current_q target_q (draws 0))))))"

text \<open>
  \<open>state_dict\<close> / \<open>load_state_dict\<close>. The snapshot is a Python dict; \<open>load_state_dict\<close>
  indexes three keys (\<open>KeyError\<close> when one is missing) and reads \<open>epsilon\<close> with a default
  (the field is a float here, so an entry of another kind also leaves it as it is).
\<close>

datatype sd_value = NetV net_state | OptV Adam | FloatV real

type_synonym agent_state_dict = "string \<rightharpoonup> sd_value"

definition DQNAgent_state_dict :: "DQNAgent \<Rightarrow> agent_state_dict" where
  "DQNAgent_state_dict agent =
     [''q_network'' \<mapsto> NetV (net_state_dict (q_network agent)),
      ''target_network'' \<mapsto> NetV (net_state_dict (target_network agent)),
      ''optimizer'' \<mapsto> OptV (optimizer agent),
      ''epsilon'' \<mapsto> FloatV (epsilon agent)]"

definition sd_net :: "agent_state_dict \<Rightarrow> string \<Rightarrow> py_error + net_state" where
  "sd_net sd key = (case sd key of None \<Rightarrow> Inl KeyError | Some (NetV s) \<Rightarrow> Inr s
                    | Some _ \<Rightarrow> Inl RuntimeError)"

definition sd_opt :: "agent_state_dict \<Rightarrow> string \<Rightarrow> py_error + Adam" where
  "sd_opt sd key = (case sd key of None \<Rightarrow> Inl KeyError | Some (OptV s) \<Rightarrow> Inr s
                    | Some _ \<Rightarrow> Inl RuntimeError)"

definition DQNAgent_load_state_dict :: "DQNAgent \<Rightarrow> agent_state_dict \<Rightarrow> py_error + DQNAgent" where
  "DQNAgent_load_state_dict agent sd =
     bind_err (sd_net sd ''q_network'') (\<lambda>qs.
     bind_err (net_load_state_dict (q_network agent) qs) (\<lambda>qn.
     bind_err (sd_net sd ''target_network'') (\<lambda>ts.
     bind_err (net_load_state_dict (target_network agent) ts) (\<lambda>tn.
     bind_err (sd_opt sd ''optimizer'') (\<lambda>opt.
     Inr (agent\<lparr>q_network := qn, target_network := tn, optimizer := opt,
                epsilon := (case sd ''epsilon'' of Some (FloatV e) \<Rightarrow> e | _ \<Rightarrow> epsilon agent)\<rparr>))))))"

section \<open>Sampling from a masked policy (shared by the policy-based agents)\<close>

text \<open>
  The tensors are float32 (\<open>torch.FloatTensor\<close>). The real-number model is kept for the
  arithmetic, with one exception that decides which actions can be sampled: a
  non-negative result that is at most half the smallest positive float32 (\<open>2\<^sup>-\<^sup>1\<^sup>4\<^sup>9\<close>) is
  rounded to exactly zero. Rounding of larger results changes no entry from or to zero
  and is left out.
\<close>

definition flush32 :: "real \<Rightarrow> real" where
  "flush32 x = (if x \<le> 1 / 2 ^ 150 then 0 else x)"

text \<open>
  \<open>torch.softmax\<close>: the largest logit is subtracted before exponentiating, so every
  exponential is at most one and the largest is exactly one; each exponential and each
  quotient is a float32 result. An entry whose logit lies about 104 or more below the
  largest is exactly zero.
\<close>

definition softmax :: "real list \<Rightarrow> real list" where
  "softmax xs =
     (let m = Max (set xs);
          es = map (\<lambda>x. flush32 (exp (x - m))) xs;
          total = sum_list es
      in map (\<lambda>e. flush32 (e / total)) es)"









section \<open>models/policy\_gradient.py: PolicyGradientAgent\<close>

record PolicyGradientAgent =
  pg_state_size :: nat
  pg_action_size :: nat
  pg_gamma :: real
  pg_policy :: PolicyNetwork
  pg_optimizer :: Adam
  pg_saved_log_probs :: "real list"
  pg_rewards :: "real list"



definition PolicyGradientAgent_store_reward ::
  "PolicyGradientAgent \<Rightarrow> real \<Rightarrow> PolicyGradientAgent" where
  "PolicyGradientAgent_store_reward agent reward =
     agent\<lparr>pg_rewards := pg_rewards agent @ [reward]\<rparr>"

text \<open>
  The backward pass over the rewards: \<open>G = reward + gamma * G; returns.insert(0, G)\<close>.
\<close>

fun returns_loop :: "real \<Rightarrow> real list \<Rightarrow> real \<Rightarrow> real list \<Rightarrow> real list" where
  "returns_loop g [] G returns = returns"
| "returns_loop g (reward # rest) G returns =
     (let G' = reward + g * G in returns_loop g rest G' (G' # returns))"

definition discounted_returns :: "real \<Rightarrow> real list \<Rightarrow> real list" where
  "discounted_returns g rewards = returns_loop g (rev rewards) 0 []"

text \<open>
  The backend of the REINFORCE update: standardising the returns (whose NaN for a
  one-step episode has no counterpart in the reals), the loss, \<open>backward\<close>, clipping and
  the optimizer step. It yields the new policy, the new optimizer and \<open>loss.item()\<close>.
\<close>

type_synonym pg_backend =
  "PolicyNetwork \<Rightarrow> Adam \<Rightarrow> real list \<Rightarrow> real list \<Rightarrow> py_error + PolicyNetwork \<times> Adam \<times> real"

definition PolicyGradientAgent_train_step ::
  "pg_backend \<Rightarrow> PolicyGradientAgent \<Rightarrow> py_error + PolicyGradientAgent \<times> real" where
  "PolicyGradientAgent_train_step update agent =
     (if length (pg_rewards agent) = 0 then Inr (agent, 0)
      else
        let returns = discounted_returns (pg_gamma agent) (pg_rewards agent) in
        bind_err (update (pg_policy agent) (pg_optimizer agent) (pg_saved_log_probs agent) returns)
          (\<lambda>(policy, opt, loss_value).
        Inr (agent\<lparr>pg_policy := policy, pg_optimizer := opt,
                   pg_saved_log_probs := [], pg_rewards := []\<rparr>, loss_value)))"

section \<open>models/actor\_critic.py: ActorCriticAgent\<close>

record ActorCriticAgent =
  ac_state_size :: nat
  ac_action_size :: nat
  ac_gamma :: real
  ac_value_loss_coef :: real
  ac_entropy_coef :: real
  ac_actor :: ActorNetwork
  ac_critic :: CriticNetwork
  ac_actor_optimizer :: Adam
  ac_critic_optimizer :: Adam
  ac_saved_log_probs :: "real list"
  ac_values :: "real list list"
  ac_rewards :: "real list"
  ac_entropies :: "real list"

definition ActorCriticAgent_init ::
  "nat \<Rightarrow> nat \<Rightarrow> real \<Rightarrow> real \<Rightarrow> real \<Rightarrow> real \<Rightarrow>
   Linear \<Rightarrow> Linear \<Rightarrow> Linear \<Rightarrow> Linear \<Rightarrow> Linear \<Rightarrow> Linear \<Rightarrow> ActorCriticAgent" where
  "ActorCriticAgent_init state_sz action_sz learning_rate gamma0 value_loss_coef entropy_coef
       a0 a3 a6 c0 c3 c6 =
     \<lparr>ac_state_size = state_sz, ac_action_size = action_sz, ac_gamma = gamma0,
      ac_value_loss_coef = value_loss_coef, ac_entropy_coef = entropy_coef,
      ac_actor = QNetwork_init a0 a3 a6, ac_critic = QNetwork_init c0 c3 c6,
      ac_actor_optimizer = Adam_init learning_rate, ac_critic_optimizer = Adam_init learning_rate,
      ac_saved_log_probs = [], ac_values = [], ac_rewards = [], ac_entropies = []\<rparr>"


definition ActorCriticAgent_store_reward :: "ActorCriticAgent \<Rightarrow> real \<Rightarrow> ActorCriticAgent" where
  "ActorCriticAgent_store_reward agent reward =
     agent\<lparr>ac_rewards := ac_rewards agent @ [reward]\<rparr>"

text \<open>
  The backend of the actor-critic update: everything from \<open>torch.cat(self.values)\<close> to
  the two optimizer steps, given the buffers and the discounted returns.
\<close>

type_synonym ac_backend =
  "ActorCriticAgent \<Rightarrow> real list \<Rightarrow>
   py_error + ActorNetwork \<times> CriticNetwork \<times> Adam \<times> Adam \<times> real \<times> real"

definition ActorCriticAgent_train_step ::
  "ac_backend \<Rightarrow> ActorCriticAgent \<Rightarrow> py_error + ActorCriticAgent \<times> real \<times> real" where
  "ActorCriticAgent_train_step update agent =
     (if length (ac_rewards agent) = 0 then Inr (agent, 0, 0)
      else
        let returns = discounted_returns (ac_gamma agent) (ac_rewards agent) in
        bind_err (update agent returns)
          (\<lambda>(actor, critic, actor_opt, critic_opt, actor_loss_value, critic_loss_value).
        Inr (agent\<lparr>ac_actor := actor, ac_critic := critic,
                   ac_actor_optimizer := actor_opt, ac_critic_optimizer := critic_opt,
                   ac_saved_log_probs := [], ac_values := [], ac_rewards := [],
                   ac_entropies := []\<rparr>,
             actor_loss_value, critic_loss_value)))"

section \<open>models/ppo.py: ActorCriticNetwork and PPOAgent\<close>

record ActorCriticNetwork =
  shared_0 :: Linear
  shared_3 :: Linear
  actor :: Linear
  critic :: Linear
  acn_train_mode :: bool

definition ActorCriticNetwork_init ::
  "Linear \<Rightarrow> Linear \<Rightarrow> Linear \<Rightarrow> Linear \<Rightarrow> ActorCriticNetwork" where
  "ActorCriticNetwork_init s0 s3 a c =
     \<lparr>shared_0 = s0, shared_3 = s3, actor = a, critic = c, acn_train_mode = True\<rparr>"




record PPOAgent =
  ppo_state_size :: nat
  ppo_action_size :: nat
  ppo_gamma :: real
  epsilon_clip :: real
  ppo_value_loss_coef :: real
  ppo_entropy_coef :: real
  gae_lambda :: real
  ppo_epochs :: int
  ppo_batch_size :: int
  ppo_policy :: ActorCriticNetwork
  ppo_optimizer :: Adam
  ppo_states :: "real list list"
  ppo_actions :: "int list"
  ppo_rewards :: "real list"
  ppo_values :: "real list"
  ppo_log_probs :: "real list"
  ppo_dones :: "bool list"

definition reset_trajectory :: "PPOAgent \<Rightarrow> PPOAgent" where
  "reset_trajectory agent =
     agent\<lparr>ppo_states := [], ppo_actions := [], ppo_rewards := [], ppo_values := [], ppo_log_probs := [],
           ppo_dones := []\<rparr>"

definition PPOAgent_init ::
  "nat \<Rightarrow> nat \<Rightarrow> real \<Rightarrow> real \<Rightarrow> real \<Rightarrow> real \<Rightarrow> real \<Rightarrow> real \<Rightarrow> int \<Rightarrow> int \<Rightarrow>
   Linear \<Rightarrow> Linear \<Rightarrow> Linear \<Rightarrow> Linear \<Rightarrow> PPOAgent" where
  "PPOAgent_init state_sz action_sz learning_rate gamma0 eps_clip value_loss_coef entropy_coef
       lam epochs batch_sz s0 s3 a c =
     \<lparr>ppo_state_size = state_sz, ppo_action_size = action_sz, ppo_gamma = gamma0,
      epsilon_clip = eps_clip, ppo_value_loss_coef = value_loss_coef,
      ppo_entropy_coef = entropy_coef, gae_lambda = lam, ppo_epochs = epochs,
      ppo_batch_size = batch_sz, ppo_policy = ActorCriticNetwork_init s0 s3 a c,
      ppo_optimizer = Adam_init learning_rate,
      ppo_states = [], ppo_actions = [], ppo_rewards = [], ppo_values = [], ppo_log_probs = [], ppo_dones = []\<rparr>"



definition PPOAgent_store_reward :: "PPOAgent \<Rightarrow> real \<Rightarrow> bool \<Rightarrow> PPOAgent" where
  "PPOAgent_store_reward agent reward done =
     agent\<lparr>ppo_rewards := ppo_rewards agent @ [reward], ppo_dones := ppo_dones agent @ [done]\<rparr>"

text \<open>List indexing with a non-negative index; out of range raises \<open>IndexError\<close>.\<close>

definition py_nth :: "'a list \<Rightarrow> nat \<Rightarrow> py_error + 'a" where
  "py_nth xs i = (if i < length xs then Inr (xs ! i) else Inl IndexError)"

text \<open>
  \<open>compute_gae\<close>. The loop \<open>for t in reversed(range(len(self.rewards)))\<close> is the
  recursion on the number of steps still to visit: \<open>Suc t\<close> steps left means index \<open>t\<close> is
  next. \<open>vals\<close> is \<open>self.values + [0]\<close>.
\<close>

fun gae_loop ::
  "real \<Rightarrow> real \<Rightarrow> real list \<Rightarrow> real list \<Rightarrow> bool list \<Rightarrow> nat \<Rightarrow> real \<Rightarrow> real list \<Rightarrow>
   py_error + real list" where
  "gae_loop g lam rs vals ds 0 gae advantages = Inr advantages"
| "gae_loop g lam rs vals ds (Suc t) gae advantages =
     bind_err (py_nth rs t) (\<lambda>r.
     bind_err (py_nth vals (t + 1)) (\<lambda>v_next.
     bind_err (py_nth ds t) (\<lambda>d.
     bind_err (py_nth vals t) (\<lambda>v.
     let delta = r + g * v_next * (1 - of_bool d) - v;
         gae' = delta + g * lam * (1 - of_bool d) * gae
     in gae_loop g lam rs vals ds t gae' (gae' # advantages)))))"

definition compute_gae :: "PPOAgent \<Rightarrow> py_error + real list \<times> real list" where
  "compute_gae agent =
     (let vals = ppo_values agent @ [0] in
      bind_err (gae_loop (ppo_gamma agent) (gae_lambda agent) (ppo_rewards agent) vals (ppo_dones agent)
                  (length (ppo_rewards agent)) 0 []) (\<lambda>advantages.
      Inr (advantages, map2 (+) advantages (ppo_values agent))))"

text \<open>
  The estimator as the specification words it, for comparison with \<open>compute_gae\<close>:
  the TD residual \<open>\<delta>\<^sub>t = r\<^sub>t + \<gamma> V(s\<^sub>t\<^sub>+\<^sub>1) (1 - done\<^sub>t) - V(s\<^sub>t)\<close> over the value sequence
  with the bootstrap value appended, and the accumulator
  \<open>A\<^sub>t = \<delta>\<^sub>t + \<gamma> \<lambda> (1 - done\<^sub>t) A\<^sub>t\<^sub>+\<^sub>1\<close>, which is zero past the end of the rollout.
\<close>

definition td_residual :: "real \<Rightarrow> real list \<Rightarrow> real list \<Rightarrow> bool list \<Rightarrow> nat \<Rightarrow> real" where
  "td_residual g rs vals ds t = rs ! t + g * vals ! (t + 1) * (1 - of_bool (ds ! t)) - vals ! t"

function gae_spec ::
  "real \<Rightarrow> real \<Rightarrow> real list \<Rightarrow> real list \<Rightarrow> bool list \<Rightarrow> nat \<Rightarrow> real" where
  "gae_spec g lam rs vals ds t =
     (if length rs \<le> t then 0
      else td_residual g rs vals ds t +
           g * lam * (1 - of_bool (ds ! t)) * gae_spec g lam rs vals ds (Suc t))"
  by pat_completeness auto
termination
  by (relation "measure (\<lambda>(g, lam, rs, vals, ds, t). length rs - t)") auto

text \<open>
  One epoch of the PPO update is the backend's: standardised advantages, forward pass
  over the stored rollout, ratio, clipped surrogate, value loss, entropy, one clipped
  optimizer step. It yields the new policy and optimizer and the three \<open>.item()\<close>s.
\<close>

type_synonym ppo_backend =
  "PPOAgent \<Rightarrow> ActorCriticNetwork \<Rightarrow> Adam \<Rightarrow> real list \<Rightarrow> real list \<Rightarrow> nat \<Rightarrow>
   py_error + ActorCriticNetwork \<times> Adam \<times> real \<times> real \<times> real"

fun ppo_epoch_loop ::
  "ppo_backend \<Rightarrow> PPOAgent \<Rightarrow> real list \<Rightarrow> real list \<Rightarrow> nat \<Rightarrow> nat \<Rightarrow>
   ActorCriticNetwork \<times> Adam \<times> real \<times> real \<times> real \<times> nat \<Rightarrow>
   py_error + ActorCriticNetwork \<times> Adam \<times> real \<times> real \<times> real \<times> nat" where
  "ppo_epoch_loop epoch agent advantages returns e 0 acc = Inr acc"
| "ppo_epoch_loop epoch agent advantages returns e (Suc n)
       (policy, opt, total_policy_loss, total_value_loss, total_entropy, num_updates) =
     bind_err (epoch agent policy opt advantages returns e) (\<lambda>(policy', opt', pl, vl, en).
     ppo_epoch_loop epoch agent advantages returns (Suc e) n
       (policy', opt', total_policy_loss + pl, total_value_loss + vl, total_entropy + en,
        Suc num_updates))"

definition PPOAgent_train_step ::
  "ppo_backend \<Rightarrow> PPOAgent \<Rightarrow> py_error + PPOAgent \<times> real \<times> real \<times> real" where
  "PPOAgent_train_step epoch agent =
     (if length (ppo_states agent) = 0 then Inr (agent, 0, 0, 0)
      else
        bind_err (compute_gae agent) (\<lambda>(advantages, returns).
        bind_err (ppo_epoch_loop epoch agent advantages returns 0 (nat (ppo_epochs agent))
                    (ppo_policy agent, ppo_optimizer agent, 0, 0, 0, 0))
          (\<lambda>(policy, opt, total_policy_loss, total_value_loss, total_entropy, num_updates).
        if num_updates = 0 then Inl ZeroDivisionError
        else Inr (reset_trajectory (agent\<lparr>ppo_policy := policy, ppo_optimizer := opt\<rparr>),
                  total_policy_loss / real num_updates,
                  total_value_loss / real num_updates,
                  total_entropy / real num_updates))))"

section \<open>The agent contract\<close>

text \<open>
  The training loops call \<open>agent.select_action\<close> and \<open>agent.train_step\<close> on whichever class
  the agent has. \<open>rng\<close> bundles the random draws of one call; \<open>backend\<close> the update
  backends.
\<close>

datatype agent =
    DQN DQNAgent
  | DoubleDQN DQNAgent
  | DuelingDQN DQNAgent
  | PG PolicyGradientAgent
  | AC ActorCriticAgent
  | PPO PPOAgent

record rng =
  uniform :: real
  choice :: nat
  dropout :: dropout_draw
  dropout2 :: dropout_draw
  sample_idxs :: "nat list"
  batch_dropout :: "nat \<Rightarrow> nat \<Rightarrow> dropout_draw"

record backend =
  dqn_optimize :: dqn_backend
  pg_update :: pg_backend
  ac_update :: ac_backend
  ppo_epoch :: ppo_backend


text \<open>The metric is the returned float or tuple of floats, as a list.\<close>

definition train_step :: "backend \<Rightarrow> agent \<Rightarrow> rng \<Rightarrow> py_error + agent \<times> real list" where
  "train_step b ag r =
     (case ag of
        DQN a \<Rightarrow> bind_err (DQNAgent_train_step (dqn_optimize b) a (sample_idxs r) (batch_dropout r))
                   (\<lambda>(a', loss). Inr (DQN a', [loss]))
      | DoubleDQN a \<Rightarrow>
          bind_err (DoubleDQNAgent_train_step (dqn_optimize b) a (sample_idxs r) (batch_dropout r))
                   (\<lambda>(a', loss). Inr (DoubleDQN a', [loss]))
      | DuelingDQN a \<Rightarrow>
          bind_err (DQNAgent_train_step (dqn_optimize b) a (sample_idxs r) (batch_dropout r))
                   (\<lambda>(a', loss). Inr (DuelingDQN a', [loss]))
      | PG a \<Rightarrow> bind_err (PolicyGradientAgent_train_step (pg_update b) a)
                  (\<lambda>(a', loss). Inr (PG a', [loss]))
      | AC a \<Rightarrow> bind_err (ActorCriticAgent_train_step (ac_update b) a)
                  (\<lambda>(a', al, cl). Inr (AC a', [al, cl]))
      | PPO a \<Rightarrow> bind_err (PPOAgent_train_step (ppo_epoch b) a)
                  (\<lambda>(a', pl, vl, en). Inr (PPO a', [pl, vl, en])))"




text \<open>
  Too little buffered experience for an update: the condition each \<open>train_step\<close> tests
  first.
\<close>

definition insufficient_data :: "agent \<Rightarrow> bool" where
  "insufficient_data ag =
     (case ag of
        DQN a \<Rightarrow> int (ReplayBuffer_len (memory a)) < batch_size a
      | DoubleDQN a \<Rightarrow> int (ReplayBuffer_len (memory a)) < batch_size a
      | DuelingDQN a \<Rightarrow> int (ReplayBuffer_len (memory a)) < batch_size a
      | PG a \<Rightarrow> pg_rewards a = []
      | AC a \<Rightarrow> ac_rewards a = []
      | PPO a \<Rightarrow> ppo_states a = [])"

text \<open>The zero metric of each class: \<open>0.0\<close>, \<open>(0.0, 0.0)\<close> or \<open>(0.0, 0.0, 0.0)\<close>.\<close>

definition zero_metric :: "agent \<Rightarrow> real list" where
  "zero_metric ag =
     (case ag of DQN a \<Rightarrow> [0] | DoubleDQN a \<Rightarrow> [0] | DuelingDQN a \<Rightarrow> [0]
      | PG a \<Rightarrow> [0] | AC a \<Rightarrow> [0, 0] | PPO a \<Rightarrow> [0, 0, 0])"

section \<open>utils/checkpoint.py: CheckpointManager\<close>

text \<open>
  Python values that occur in a checkpoint dictionary. \<open>PyOpaque\<close> stands for tensors and
  state dicts, which \<open>torch.save\<close> pickles but \<open>json.dump\<close> refuses. A \<open>dict\<close> is an
  association list in insertion order: assigning to a present key replaces the value in
  place, assigning to a new key appends (\<open>AList.update\<close>).
\<close>

datatype pyval = PyStr string | PyNum real | PyDict "(string \<times> pyval) list" | PyOpaque nat

type_synonym pydict = "(string \<times> pyval) list"

definition dict_get :: "pydict \<Rightarrow> string \<Rightarrow> pyval \<Rightarrow> pyval" where
  "dict_get d k dflt = (case map_of d k of None \<Rightarrow> dflt | Some v \<Rightarrow> v)"

definition dict_keys :: "pydict \<Rightarrow> string set" where
  "dict_keys d = fst ` set d"

text \<open>Truthiness of an \<open>Optional[Dict]\<close>: \<open>None\<close> and the empty dict are false.\<close>

definition truthy :: "pydict option \<Rightarrow> bool" where
  "truthy m = (case m of None \<Rightarrow> False | Some d \<Rightarrow> d \<noteq> [])"

fun json_serializable :: "pyval \<Rightarrow> bool" where
  "json_serializable (PyStr s) = True"
| "json_serializable (PyNum x) = True"
| "json_serializable (PyOpaque n) = False"
| "json_serializable (PyDict d) = list_all (\<lambda>(k, v). json_serializable v) d"

text \<open>
  The file system: what each path holds, and which paths refuse a write. A regular file
  holds a pickled dictionary, a JSON document, something else, or cannot be read.
\<close>

datatype fs_entry = Pickle pydict | Json pydict | Other | Unreadable | Directory

record filesystem =
  files :: "string \<rightharpoonup> fs_entry"
  read_only :: "string \<Rightarrow> bool"

definition isfile :: "filesystem \<Rightarrow> string \<Rightarrow> bool" where
  "isfile fs p = (case files fs p of None \<Rightarrow> False | Some Directory \<Rightarrow> False | Some _ \<Rightarrow> True)"

definition path_exists :: "filesystem \<Rightarrow> string \<Rightarrow> bool" where
  "path_exists fs p = (files fs p \<noteq> None)"

text \<open>
  \<open>self.checkpoint_dir / p\<close>: an absolute right operand replaces the left one. Paths are
  plain strings here; \<open>pathlib\<close>'s normalisation of separators is not modelled.
\<close>

definition path_join :: "string \<Rightarrow> string \<Rightarrow> string" where
  "path_join dir p = (case p of c # _ \<Rightarrow> (if c = CHR ''/'' then p else dir @ ''/'' @ p) | [] \<Rightarrow> dir)"

definition torch_load :: "filesystem \<Rightarrow> string \<Rightarrow> py_error + pydict" where
  "torch_load fs p =
     (case files fs p of
        Some (Pickle d) \<Rightarrow> Inr d
      | Some (Json d) \<Rightarrow> Inl RuntimeError
      | Some Other \<Rightarrow> Inl RuntimeError
      | _ \<Rightarrow> Inl OSError)"

definition write_file :: "filesystem \<Rightarrow> string \<Rightarrow> fs_entry \<Rightarrow> py_error + filesystem" where
  "write_file fs p content =
     (if read_only fs p \<or> files fs p = Some Directory then Inl OSError
      else Inr (fs\<lparr>files := (files fs)(p \<mapsto> content)\<rparr>))"

record CheckpointManager =
  checkpoint_dir :: string

text \<open>
  \<open>save\<close>. The caller's dictionary is mutated before anything is written, so the
  model returns it next to the file system whether or not the writes succeed; the
  \<open>except\<close> clause logs and re-raises. \<open>now\<close> is \<open>datetime.now().isoformat()\<close>.
\<close>

definition save_mutation :: "pydict \<Rightarrow> pydict option \<Rightarrow> string \<Rightarrow> pydict" where
  "save_mutation checkpoint metadata now =
     (let c1 = (if truthy metadata then AList.update ''metadata'' (PyDict (the metadata)) checkpoint
                else checkpoint)
      in AList.update ''timestamp'' (PyStr now) c1)"

definition CheckpointManager_save ::
  "CheckpointManager \<Rightarrow> string \<Rightarrow> pydict \<Rightarrow> pydict option \<Rightarrow> string \<Rightarrow> filesystem \<Rightarrow>
   pydict \<times> filesystem \<times> (py_error + string)" where
  "CheckpointManager_save m name checkpoint metadata now fs =
     (let checkpoint_path = path_join (checkpoint_dir m) (name @ ''.pt'');
          checkpoint' = save_mutation checkpoint metadata now
      in case write_file fs checkpoint_path (Pickle checkpoint') of
           Inl e \<Rightarrow> (checkpoint', fs, Inl e)
         | Inr fs1 \<Rightarrow>
             let metadata_path = path_join (checkpoint_dir m) (name @ ''_metadata.json'');
                 sidecar = [(''name'', PyStr name),
                            (''timestamp'', dict_get checkpoint' ''timestamp'' (PyStr [])),
                            (''metadata'', dict_get checkpoint' ''metadata'' (PyDict [])),
                            (''episode'', dict_get checkpoint' ''episode'' (PyNum 0)),
                            (''reward'', dict_get checkpoint' ''reward'' (PyNum 0))]
             in if read_only fs1 metadata_path \<or> files fs1 metadata_path = Some Directory
                then (checkpoint', fs1, Inl OSError)
                else if \<not> json_serializable (PyDict sidecar)
                then (checkpoint', fs1\<lparr>files := (files fs1)(metadata_path \<mapsto> Other)\<rparr>, Inl TypeError)
                else (checkpoint', fs1\<lparr>files := (files fs1)(metadata_path \<mapsto> Json sidecar)\<rparr>,
                      Inr checkpoint_path))"

text \<open>
  \<open>load\<close>. The body of the \<open>try\<close> block first, then the method with its
  \<open>except Exception\<close> handler, which logs and returns \<open>None\<close>.
\<close>

definition load_path :: "CheckpointManager \<Rightarrow> string \<Rightarrow> filesystem \<Rightarrow> string" where
  "load_path m name fs =
     (if isfile fs name then name else path_join (checkpoint_dir m) (name @ ''.pt''))"

definition load_body ::
  "CheckpointManager \<Rightarrow> string \<Rightarrow> string option \<Rightarrow> filesystem \<Rightarrow> py_error + pydict option" where
  "load_body m name device fs =
     (let checkpoint_path = load_path m name fs in
      if \<not> path_exists fs checkpoint_path then Inr None
      else bind_err (case device of Some dev \<Rightarrow> torch_load fs checkpoint_path
                                  | None \<Rightarrow> torch_load fs checkpoint_path)
             (\<lambda>checkpoint. Inr (Some checkpoint)))"

definition CheckpointManager_load ::
  "CheckpointManager \<Rightarrow> string \<Rightarrow> string option \<Rightarrow> filesystem \<Rightarrow> py_error + pydict option" where
  "CheckpointManager_load m name device fs =
     (case load_body m name device fs of Inl e \<Rightarrow> Inr None | Inr r \<Rightarrow> Inr r)"

section \<open>Example inputs\<close>

text \<open>
  A network of the constructor's shape (one state feature, two actions, 128 hidden
  units) in which only hidden unit 0 carries signal: the first output is the state
  feature passed through both hidden layers, the second output is the constant 1.
\<close>

definition demo_w0 :: Linear where
  "demo_w0 = \<lparr>weight = [1] # replicate 127 [0], bias = 0 # replicate 127 0\<rparr>"

definition demo_w3 :: Linear where
  "demo_w3 = \<lparr>weight = (1 # replicate 127 0) # replicate 127 (0 # replicate 127 0),
              bias = 0 # replicate 127 0\<rparr>"

definition demo_w6 :: Linear where
  "demo_w6 = \<lparr>weight = [1 # replicate 127 0, 0 # replicate 127 0], bias = [0, 1]\<rparr>"

definition demo_net :: QNetwork where
  "demo_net = QNetwork_init demo_w0 demo_w3 demo_w6"

text \<open>Dropout draws: every unit kept, and unit 0 of the first dropout layer dropped.\<close>

definition keep_all :: dropout_draw where
  "keep_all layer unit = True"

definition drop_first :: dropout_draw where
  "drop_first layer unit = (\<not> (layer = 0 \<and> unit = 0))"

text \<open>Zero layers of the same shape: another outcome of the random initialisation.\<close>

definition zero_w0 :: Linear where
  "zero_w0 = \<lparr>weight = [0] # replicate 127 [0], bias = 0 # replicate 127 0\<rparr>"

definition zero_w3 :: Linear where
  "zero_w3 = \<lparr>weight = (0 # replicate 127 0) # replicate 127 (0 # replicate 127 0),
              bias = 0 # replicate 127 0\<rparr>"

definition zero_w6 :: Linear where
  "zero_w6 = \<lparr>weight = [0 # replicate 127 0, 0 # replicate 127 0], bias = [0, 0]\<rparr>"

text \<open>
  \<open>agent_A\<close> holds the parameters of \<open>demo_net\<close> with the default hyperparameters;
  \<open>agent_B\<close> is a freshly constructed agent of the same dimensions, and
  \<open>agent_B_restored\<close> is \<open>agent_B\<close> after \<open>load_state_dict(agent_A.state_dict())\<close>.
\<close>

definition agent_A :: DQNAgent where
  "agent_A = DQNAgent_init 1 2 0.001 0.99 1 0.01 0.995 10000 32 10 demo_w0 demo_w3 demo_w6"

definition agent_B :: DQNAgent where
  "agent_B = DQNAgent_init 1 2 0.001 0.99 1 0.01 0.995 10000 32 10 zero_w0 zero_w3 zero_w6"

definition agent_B_restored :: "py_error + DQNAgent" where
  "agent_B_restored = DQNAgent_load_state_dict agent_B (DQNAgent_state_dict agent_A)"

text \<open>
  The greedy choice (\<open>training=False\<close>) for the state \<open>[1]\<close> with both actions available,
  under the given dropout draws.
\<close>

definition greedy_action :: "py_error + DQNAgent \<Rightarrow> dropout_draw \<Rightarrow> py_error + int" where
  "greedy_action ag draw =
     bind_err ag (\<lambda>a. DQNAgent_select_action a [1] [0, 1] False 0 0 draw)"

text \<open>
  An agent with exploration floor \<open>0.6\<close> and decay \<open>0.5\<close>, batch size 1 and one stored
  transition, so that \<open>train_step\<close> performs an update.
\<close>

definition floor_agent :: DQNAgent where
  "floor_agent =
     DQNAgent_remember
       (DQNAgent_init 1 2 0.001 0.99 1 0.6 0.5 10000 1 10 demo_w0 demo_w3 demo_w6)
       [1] 0 1 [1] False"

text \<open>A backend that leaves the parameters as they are, and draws for a whole call.\<close>

definition idle_optimize :: dqn_backend where
  "idle_optimize q opt objective = (q, opt)"

definition idle_backend :: backend where
  "idle_backend =
     \<lparr>dqn_optimize = idle_optimize,
      pg_update = (\<lambda>policy opt lps returns. Inr (policy, opt, 0)),
      ac_update = (\<lambda>a returns. Inr (ac_actor a, ac_critic a, ac_actor_optimizer a,
                                     ac_critic_optimizer a, 0, 0)),
      ppo_epoch = (\<lambda>a policy opt advantages returns e. Inr (policy, opt, 0, 0, 0))\<rparr>"

definition keep_all_batch :: "nat \<Rightarrow> nat \<Rightarrow> dropout_draw" where
  "keep_all_batch pass sample = keep_all"

definition example_rng :: rng where
  "example_rng = \<lparr>uniform = 0, choice = 0, dropout = keep_all, dropout2 = keep_all,
                  sample_idxs = [0], batch_dropout = keep_all_batch\<rparr>"


text \<open>A rollout of two steps, the second one terminal.\<close>

definition gae_agent :: PPOAgent where
  "gae_agent =
     (PPOAgent_init 1 2 0.0003 (1/2) 0.2 0.5 0.01 (1/2) 4 64 demo_w0 demo_w3 demo_w6 demo_w6)
       \<lparr>ppo_rewards := [1, 2], ppo_values := [1/2, 1/4], ppo_dones := [False, True]\<rparr>"

text \<open>An empty checkpoint directory, and a checkpoint as \<open>main.py\<close> builds it.\<close>

definition example_manager :: CheckpointManager where
  "example_manager = \<lparr>checkpoint_dir = ''checkpoints''\<rparr>"

definition empty_fs :: filesystem where
  "empty_fs = \<lparr>files = Map.empty, read_only = (\<lambda>p. False)\<rparr>"

definition example_checkpoint :: pydict where
  "example_checkpoint = [(''model_state'', PyOpaque 0), (''episode'', PyNum 5), (''reward'', PyNum 3)]"

definition stored_fs :: filesystem where
  "stored_fs = \<lparr>files = [''checkpoints/m.pt'' \<mapsto> Pickle example_checkpoint],
                read_only = (\<lambda>p. False)\<rparr>"

section \<open>Properties\<close>

subsection \<open>The replay buffer\<close>

lemma deque_append_bounded:
  "length xs \<le> m \<Longrightarrow> length (deque_append m xs x) \<le> m"
  by (simp add: deque_append_def Let_def)

lemma deque_append_full:
  "length xs = m \<Longrightarrow> deque_append m xs x = tl (xs @ [x])"
  by (simp add: deque_append_def Let_def)

lemma deque_append_room:
  "length xs < m \<Longrightarrow> deque_append m xs x = xs @ [x]"
  by (simp add: deque_append_def Let_def)

lemma push_maxlen [simp]: "maxlen (ReplayBuffer_push rb s a r s' d) = maxlen rb"
  by (simp add: ReplayBuffer_push_def)

lemma push_buffer:
  "buffer (ReplayBuffer_push rb s a r s' d) =
     deque_append (maxlen rb) (buffer rb) (s, a, r, s', d)"
  by (simp add: ReplayBuffer_push_def)

lemma push_all_maxlen [simp]: "maxlen (push_all rb ts) = maxlen rb"
  by (induction rb ts rule: push_all.induct) simp_all

lemma push_all_content:
  "length (buffer rb) \<le> maxlen rb \<Longrightarrow>
   buffer (push_all rb ts) =
     drop (length (buffer rb) + length ts - maxlen rb) (buffer rb @ ts)"
proof (induction rb ts rule: push_all.induct)
  case (1 rb)
  then show ?case by simp
next
  case (2 rb s a r s' d ts)
  let ?t = "(s, a, r, s', d)"
  let ?rb = "ReplayBuffer_push rb s a r s' d"
  let ?xs = "buffer rb"
  let ?m = "maxlen rb"
  show ?case
  proof (cases "length ?xs = ?m")
    case True
    then have step: "buffer ?rb = tl (?xs @ [?t])"
      by (simp add: push_buffer deque_append_full)
    have len: "length (buffer ?rb) = ?m"
      using True by (simp add: step)
    have "buffer (push_all ?rb ts) = drop (length ts) (buffer ?rb @ ts)"
      using "2.IH" len by simp
    also have "buffer ?rb @ ts = tl (?xs @ ?t # ts)"
      unfolding step by (cases ?xs) simp_all
    also have "drop (length ts) (tl (?xs @ ?t # ts)) = drop (Suc (length ts)) (?xs @ ?t # ts)"
      by (simp only: drop_Suc)
    finally show ?thesis using True by simp
  next
    case False
    with "2.prems" have lt: "length ?xs < ?m" by simp
    then have step: "buffer ?rb = ?xs @ [?t]"
      by (simp add: push_buffer deque_append_room)
    have "buffer (push_all ?rb ts) =
          drop (length (buffer ?rb) + length ts - ?m) (buffer ?rb @ ts)"
      using "2.IH" lt by (simp add: step)
    then show ?thesis by (simp add: step)
  qed
qed

lemma push_all_bounded:
  "length (buffer rb) \<le> maxlen rb \<Longrightarrow> length (buffer (push_all rb ts)) \<le> maxlen rb"
  by (simp add: push_all_content)

text \<open>
  Claim C5. A replay buffer built with capacity \<open>c\<close> never holds more than \<open>c\<close>
  transitions, whatever is pushed. After \<open>c + 1\<close> pushes into a fresh buffer of capacity
  \<open>c \<ge> 1\<close> the content is exactly the pushes without the first one, in order: the
  newest transition is present, and the oldest is absent (unless an equal transition
  was pushed again later, which a list of values cannot tell apart from it).
\<close>

theorem replay_buffer_fifo:
  "ReplayBuffer_len (push_all (ReplayBuffer_init c) ts) \<le> c \<and>
   (0 < c \<longrightarrow> length ts = Suc c \<longrightarrow>
      buffer (push_all (ReplayBuffer_init c) ts) = tl ts \<and>
      last ts \<in> set (buffer (push_all (ReplayBuffer_init c) ts)) \<and>
      (hd ts \<notin> set (tl ts) \<longrightarrow> hd ts \<notin> set (buffer (push_all (ReplayBuffer_init c) ts))))"
proof -
  let ?rb = "ReplayBuffer_init c"
  have fresh: "length (buffer ?rb) \<le> maxlen ?rb"
    by (simp add: ReplayBuffer_init_def)
  have content: "buffer (push_all ?rb ts) = drop (length ts - c) ts"
    using push_all_content [OF fresh, of ts] by (simp add: ReplayBuffer_init_def)
  have bounded: "ReplayBuffer_len (push_all ?rb ts) \<le> c"
    using push_all_bounded [OF fresh, of ts]
    by (simp add: ReplayBuffer_len_def ReplayBuffer_init_def)
  have evict: "buffer (push_all ?rb ts) = tl ts \<and> last ts \<in> set (buffer (push_all ?rb ts))"
    if "0 < c" and "length ts = Suc c"
  proof -
    from that have tail: "buffer (push_all ?rb ts) = tl ts"
      by (simp add: content drop_Suc)
    from that have "tl ts \<noteq> []"
      by (cases ts) auto
    then have "last ts \<in> set (tl ts)"
      by (metis last_in_set last_tl)
    with tail show ?thesis by simp
  qed
  show ?thesis
    using bounded evict by auto
qed

theorem replay_buffer_fifo_witness:
  "ReplayBuffer_len (push_all (ReplayBuffer_init 2)
      [([0], 0, 1, [1], False), ([1], 1, 2, [2], False), ([2], 2, 3, [3], True)]) \<le> 2 \<and>
   buffer (push_all (ReplayBuffer_init 2)
      [([0], 0, 1, [1], False), ([1], 1, 2, [2], False), ([2], 2, 3, [3], True)]) =
      [([1], 1, 2, [2], False), ([2], 2, 3, [3], True)] \<and>
   ([2], 2, 3, [3], True) \<in> set (buffer (push_all (ReplayBuffer_init 2)
      [([0], 0, 1, [1], False), ([1], 1, 2, [2], False), ([2], 2, 3, [3], True)])) \<and>
   ([0], 0, 1, [1], False) \<notin> set (buffer (push_all (ReplayBuffer_init 2)
      [([0], 0, 1, [1], False), ([1], 1, 2, [2], False), ([2], 2, 3, [3], True)]))"
  using replay_buffer_fifo [of 2
      "[([0], 0, 1, [1], False), ([1], 1, 2, [2], False), ([2], 2, 3, [3], True)]"]
  by simp

lemma bind_err_Inr [simp]: "bind_err (Inr v) f = f v"
  by (simp add: bind_err_def)

lemma bind_err_Inl [simp]: "bind_err (Inl e) f = Inl e"
  by (simp add: bind_err_def)

lemma bind_err_eq_Inr:
  "bind_err r f = Inr y \<longleftrightarrow> (\<exists>v. r = Inr v \<and> f v = Inr y)"
  by (cases r) simp_all


lemma length_ReLU [simp]: "length (ReLU xs) = length xs"
  by (simp add: ReLU_def)

lemma length_Dropout [simp]: "length (Dropout t keep xs) = length xs"
  by (simp add: Dropout_def)




lemma dueling_combination:
  assumes "DuelingQNetwork_forward n draw s = Inr q"
  shows "\<exists>v advantage. length q = length advantage \<and>
           (\<forall>i<length q. q ! i = v + (advantage ! i - mean advantage))"
proof -
  from assms obtain val advantage where
    res: "(case val of [v] \<Rightarrow> Inr (map (\<lambda>a. v + (a - mean advantage)) advantage)
          | _ \<Rightarrow> Inl RuntimeError) = Inr q"
    unfolding DuelingQNetwork_forward_def Let_def bind_err_eq_Inr by blast
  then obtain v where "val = [v]"
    by (cases val; cases "tl val") auto
  with res have "q = map (\<lambda>a. v + (a - mean advantage)) advantage" by simp
  then show ?thesis by auto
qed

lemma argmax_from_max:
  assumes "length pre = i" and "best < i" and "pre ! best = v" and "\<forall>k<i. pre ! k \<le> v"
  shows "argmax_from xs i best v < i + length xs \<and>
         (\<forall>k < i + length xs. (pre @ xs) ! k \<le> (pre @ xs) ! argmax_from xs i best v)"
  using assms
proof (induction xs arbitrary: pre i best v)
  case Nil
  then show ?case by simp
next
  case (Cons x xs)
  show ?case
  proof (cases "v < x")
    case True
    have pre': "length (pre @ [x]) = Suc i" "i < Suc i" "(pre @ [x]) ! i = x"
      using Cons.prems by (simp_all add: nth_append)
    have "\<forall>k<Suc i. (pre @ [x]) ! k \<le> x"
    proof (intro allI impI)
      fix k assume "k < Suc i"
      show "(pre @ [x]) ! k \<le> x"
      proof (cases "k < i")
        case True
        with Cons.prems \<open>v < x\<close> show ?thesis
          by (auto simp: nth_append intro: order_trans less_imp_le)
      next
        case False
        with \<open>k < Suc i\<close> Cons.prems show ?thesis by (simp add: nth_append)
      qed
    qed
    from Cons.IH [OF pre' this] True show ?thesis by simp
  next
    case False
    have pre': "length (pre @ [x]) = Suc i" "best < Suc i" "(pre @ [x]) ! best = v"
      using Cons.prems by (simp_all add: nth_append)
    have "\<forall>k<Suc i. (pre @ [x]) ! k \<le> v"
    proof (intro allI impI)
      fix k assume "k < Suc i"
      show "(pre @ [x]) ! k \<le> v"
      proof (cases "k < i")
        case True
        with Cons.prems show ?thesis by (simp add: nth_append)
      next
        case False
        with \<open>k < Suc i\<close> \<open>\<not> v < x\<close> Cons.prems show ?thesis by (simp add: nth_append)
      qed
    qed
    from Cons.IH [OF pre' this] False show ?thesis by simp
  qed
qed

lemma argmax_max:
  assumes "xs \<noteq> []"
  shows "\<exists>j. argmax xs = Inr j \<and> j < length xs \<and> (\<forall>k<length xs. xs ! k \<le> xs ! j)"
proof -
  from assms obtain x rest where xs: "xs = x # rest" by (cases xs) auto
  have "argmax_from rest 1 0 x < 1 + length rest \<and>
        (\<forall>k < 1 + length rest. ([x] @ rest) ! k \<le> ([x] @ rest) ! argmax_from rest 1 0 x)"
    by (rule argmax_from_max) simp_all
  then show ?thesis by (simp add: argmax_def xs)
qed





declare gae_spec.simps [simp del]

lemma gae_spec_end: "length rs \<le> t \<Longrightarrow> gae_spec g lam rs vals ds t = 0"
  by (subst gae_spec.simps) simp

lemma gae_spec_step:
  "t < length rs \<Longrightarrow>
   gae_spec g lam rs vals ds t =
     td_residual g rs vals ds t + g * lam * (1 - of_bool (ds ! t)) * gae_spec g lam rs vals ds (Suc t)"
  by (subst gae_spec.simps) simp

lemma gae_loop_invariant:
  assumes "k \<le> length rs" and "length rs < length vals" and "length rs \<le> length ds"
  shows "gae_loop g lam rs vals ds k (gae_spec g lam rs vals ds k)
           (map (gae_spec g lam rs vals ds) [k..<length rs]) =
         Inr (map (gae_spec g lam rs vals ds) [0..<length rs])"
  using assms
proof (induction k)
  case 0
  then show ?case by simp
next
  case (Suc k)
  let ?A = "gae_spec g lam rs vals ds"
  have k: "k < length rs" "Suc k < length vals" "k < length ds" "k < length vals"
    using Suc.prems by simp_all
  have gae': "td_residual g rs vals ds k + g * lam * (1 - of_bool (ds ! k)) * ?A (Suc k) = ?A k"
    using gae_spec_step [OF k(1)] by simp
  have upt: "?A k # map ?A [Suc k..<length rs] = map ?A [k..<length rs]"
    using k(1) by (simp add: upt_conv_Cons)
  have "gae_loop g lam rs vals ds (Suc k) (?A (Suc k)) (map ?A [Suc k..<length rs]) =
        gae_loop g lam rs vals ds k (?A k) (?A k # map ?A [Suc k..<length rs])"
    using k gae' by (simp add: py_nth_def td_residual_def Let_def)
  also have "\<dots> = Inr (map ?A [0..<length rs])"
    using Suc.IH Suc.prems upt by simp
  finally show ?case .
qed

lemma compute_gae_spec:
  assumes "length (ppo_values agent) = length (ppo_rewards agent)"
    and "length (ppo_dones agent) = length (ppo_rewards agent)"
  shows "compute_gae agent =
     Inr (map (gae_spec (ppo_gamma agent) (gae_lambda agent) (ppo_rewards agent)
                 (ppo_values agent @ [0]) (ppo_dones agent)) [0..<length (ppo_rewards agent)],
          map2 (+) (map (gae_spec (ppo_gamma agent) (gae_lambda agent) (ppo_rewards agent)
                 (ppo_values agent @ [0]) (ppo_dones agent)) [0..<length (ppo_rewards agent)])
               (ppo_values agent))"
proof -
  let ?rs = "ppo_rewards agent" and ?vals = "ppo_values agent @ [0]" and ?ds = "ppo_dones agent"
  let ?A = "gae_spec (ppo_gamma agent) (gae_lambda agent) ?rs ?vals ?ds"
  have "gae_loop (ppo_gamma agent) (gae_lambda agent) ?rs ?vals ?ds (length ?rs)
          (?A (length ?rs)) (map ?A [length ?rs..<length ?rs]) = Inr (map ?A [0..<length ?rs])"
    by (rule gae_loop_invariant) (use assms in simp_all)
  then have "gae_loop (ppo_gamma agent) (gae_lambda agent) ?rs ?vals ?ds (length ?rs) 0 [] =
             Inr (map ?A [0..<length ?rs])"
    by (simp add: gae_spec_end)
  then show ?thesis
    by (simp add: compute_gae_def Let_def)
qed

text \<open>
  Claim C6. When the rollout buffers have equal lengths, \<open>compute_gae\<close> returns, for
  every step \<open>t\<close>, the advantage \<open>A\<^sub>t\<close> of the specification's recurrence (bootstrap value
  0 appended, TD residual \<open>\<delta>\<^sub>t\<close>, accumulator \<open>A\<^sub>t = \<delta>\<^sub>t + \<gamma>\<lambda>(1 - done\<^sub>t) A\<^sub>t\<^sub>+\<^sub>1\<close>) and
  the return \<open>A\<^sub>t + V(s\<^sub>t)\<close>. With \<open>\<lambda> = 0\<close> every advantage is the TD residual, and for
  a one-step rollout that ends the episode the advantage is \<open>reward - V(s)\<close>.
\<close>
theorem compute_gae_correct:
  assumes "length (ppo_values agent) = length (ppo_rewards agent)"
    and "length (ppo_dones agent) = length (ppo_rewards agent)"
  shows "\<exists>advantages returns.
     compute_gae agent = Inr (advantages, returns) \<and>
     length advantages = length (ppo_rewards agent) \<and>
     length returns = length (ppo_rewards agent) \<and>
     (\<forall>t < length (ppo_rewards agent).
        advantages ! t = gae_spec (ppo_gamma agent) (gae_lambda agent) (ppo_rewards agent)
                           (ppo_values agent @ [0]) (ppo_dones agent) t \<and>
        returns ! t = advantages ! t + ppo_values agent ! t \<and>
        (gae_lambda agent = 0 \<longrightarrow>
           advantages ! t = td_residual (ppo_gamma agent) (ppo_rewards agent)
                              (ppo_values agent @ [0]) (ppo_dones agent) t)) \<and>
     (\<forall>r v. ppo_rewards agent = [r] \<and> ppo_values agent = [v] \<and> ppo_dones agent = [True] \<longrightarrow>
        advantages = [r - v])"
proof -
  let ?rs = "ppo_rewards agent" and ?vals = "ppo_values agent @ [0]" and ?ds = "ppo_dones agent"
  let ?g = "ppo_gamma agent" and ?lam = "gae_lambda agent"
  let ?A = "gae_spec ?g ?lam ?rs ?vals ?ds"
  let ?advs = "map ?A [0..<length ?rs]"
  let ?rets = "map2 (+) ?advs (ppo_values agent)"
  have res: "compute_gae agent = Inr (?advs, ?rets)"
    by (rule compute_gae_spec [OF assms])
  have len: "length ?advs = length ?rs" "length ?rets = length ?rs"
    using assms by simp_all
  have pointwise: "?advs ! t = ?A t \<and> ?rets ! t = ?advs ! t + ppo_values agent ! t \<and>
        (?lam = 0 \<longrightarrow> ?advs ! t = td_residual ?g ?rs ?vals ?ds t)"
    if "t < length ?rs" for t
  proof -
    have a: "?advs ! t = ?A t" using that by simp
    have b: "?rets ! t = ?advs ! t + ppo_values agent ! t"
      using that assms by simp
    have c: "?lam = 0 \<longrightarrow> ?advs ! t = td_residual ?g ?rs ?vals ?ds t"
    proof
      assume z: "?lam = 0"
      have "?A t = td_residual ?g ?rs ?vals ?ds t +
                   ?g * ?lam * (1 - of_bool (?ds ! t)) * ?A (Suc t)"
        by (rule gae_spec_step [OF \<open>t < length ?rs\<close>])
      also have "\<dots> = td_residual ?g ?rs ?vals ?ds t"
        by (simp only: z mult_zero_right mult_zero_left add_0_right)
      finally show "?advs ! t = td_residual ?g ?rs ?vals ?ds t"
        using a by (simp only:)
    qed
    from a b c show ?thesis by blast
  qed
  have single: "?advs = [r - v]"
    if "?rs = [r] \<and> ppo_values agent = [v] \<and> ?ds = [True]" for r v
  proof -
    have "?A 0 = r - v"
      using that gae_spec_step [of 0 ?rs ?g ?lam ?vals ?ds]
      by (simp add: td_residual_def)
    with that show ?thesis by simp
  qed
  from res len pointwise single show ?thesis by blast
qed

theorem compute_gae_correct_witness:
  "length (ppo_values gae_agent) = length (ppo_rewards gae_agent) \<and>
   length (ppo_dones gae_agent) = length (ppo_rewards gae_agent) \<and>
   compute_gae gae_agent = Inr ([17/16, 7/4], [25/16, 2]) \<and>
   (\<exists>advantages returns.
      compute_gae gae_agent = Inr (advantages, returns) \<and>
      length advantages = length (ppo_rewards gae_agent) \<and>
      length returns = length (ppo_rewards gae_agent))"
proof -
  have h1: "length (ppo_values gae_agent) = length (ppo_rewards gae_agent)"
    by (simp add: gae_agent_def)
  have h2: "length (ppo_dones gae_agent) = length (ppo_rewards gae_agent)"
    by (simp add: gae_agent_def)
  have run: "compute_gae gae_agent = Inr ([17/16, 7/4], [25/16, 2])"
    by (simp add: compute_gae_def gae_agent_def PPOAgent_init_def py_nth_def Let_def
          numeral_2_eq_2)
  from compute_gae_correct [OF h1 h2] h1 h2 run show ?thesis
    by blast
qed

lemma list_all_replicate: "list_all P (replicate n x) = (n = 0 \<or> P x)"
  by (induction n) auto

lemma dot_Cons [simp]: "dot (a # as) (x # xs) = a * x + dot as xs"
  by (simp add: dot_def)

lemma dot_Nil [simp]: "dot [] xs = 0"
  by (simp add: dot_def)

lemma dot_replicate_zero [simp]: "dot (replicate n 0) xs = 0"
proof (induction n arbitrary: xs)
  case 0
  then show ?case by simp
next
  case (Suc n)
  then show ?case by (cases xs) (simp_all add: dot_def)
qed

lemma ReLU_sparse: "ReLU (v # replicate n 0) = max 0 v # replicate n 0"
  by (simp add: ReLU_def)

lemma Dropout_nth:
  "i < length xs \<Longrightarrow>
   Dropout True keep xs ! i = (if keep i then xs ! i / (1 - 0.2) else 0)"
  unfolding Dropout_def by (simp del: upt_Suc)

lemma Dropout_sparse:
  "Dropout True keep (v # replicate n 0) = (if keep 0 then v / (1 - 0.2) else 0) # replicate n 0"
proof (rule nth_equalityI)
  show "length (Dropout True keep (v # replicate n 0)) =
        length ((if keep 0 then v / (1 - 0.2) else 0) # replicate n 0)"
    by simp
next
  fix i assume "i < length (Dropout True keep (v # replicate n 0))"
  then have i: "i < length (v # replicate n 0)" by simp
  show "Dropout True keep (v # replicate n 0) ! i =
        ((if keep 0 then v / (1 - 0.2) else 0) # replicate n 0) ! i"
  proof (cases i)
    case 0
    with Dropout_nth [OF i, of keep] show ?thesis by simp
  next
    case (Suc j)
    with i have "j < n" by simp
    with Suc Dropout_nth [OF i, of keep] show ?thesis by simp
  qed
qed

lemma demo_layer0: "Linear_forward demo_w0 [x] = Inr (x # replicate 127 0)"
  by (simp add: Linear_forward_def demo_w0_def list_all_replicate)

lemma demo_layer3: "Linear_forward demo_w3 (v # replicate 127 0) = Inr (v # replicate 127 0)"
  by (simp add: Linear_forward_def demo_w3_def list_all_replicate)

lemma demo_layer6: "Linear_forward demo_w6 (v # replicate 127 0) = Inr [v, 1]"
  by (simp add: Linear_forward_def demo_w6_def)

lemma demo_forward:
  "QNetwork_forward demo_net draw [x] =
     Inr [if draw 1 0 then max 0 (if draw 0 0 then max 0 x / (1 - 0.2) else 0) / (1 - 0.2) else 0, 1]"
  unfolding QNetwork_forward_def demo_net_def QNetwork_init_def
  by (simp only: QNetwork.simps demo_layer0 bind_err_Inr ReLU_sparse Dropout_sparse
        demo_layer3 demo_layer6)


subsection \<open>Checkpoint manager\<close>

lemma save_caller_dict:
  "fst (CheckpointManager_save m name checkpoint metadata now fs) =
     save_mutation checkpoint metadata now"
  by (simp add: CheckpointManager_save_def Let_def split: sum.splits)

lemma map_of_save_mutation:
  "map_of (save_mutation c metadata now) =
     (if truthy metadata then (map_of c)(''metadata'' \<mapsto> PyDict (the metadata)) else map_of c)
       (''timestamp'' \<mapsto> PyStr now)"
  by (simp add: save_mutation_def Let_def update_conv')

lemma keys_save_mutation:
  "dict_keys (save_mutation c metadata now) =
     {''timestamp''} \<union> (if truthy metadata then {''metadata''} else {}) \<union> dict_keys c"
  by (auto simp: save_mutation_def Let_def dict_keys_def dom_update)

text \<open>
  Claim C10, as amended. \<open>save\<close> changes the caller's dictionary, whether or not the
  writes succeed: afterwards \<open>'timestamp'\<close> holds the new time string; \<open>'metadata'\<close> holds
  the metadata argument when that argument is a non-empty dict, and is as before when
  the argument is \<open>None\<close> or empty; every other key is as before, none is removed and
  no further key is added. The dictionary differs from before unless it already held
  that very time stamp.
\<close>
theorem save_mutates_checkpoint:
  "map_of (fst (CheckpointManager_save m name checkpoint metadata now fs)) ''timestamp'' =
     Some (PyStr now) \<and>
   (truthy metadata \<longrightarrow>
      map_of (fst (CheckpointManager_save m name checkpoint metadata now fs)) ''metadata'' =
        Some (PyDict (the metadata))) \<and>
   (\<not> truthy metadata \<longrightarrow>
      map_of (fst (CheckpointManager_save m name checkpoint metadata now fs)) ''metadata'' =
        map_of checkpoint ''metadata'') \<and>
   (\<forall>k. k \<noteq> ''timestamp'' \<and> k \<noteq> ''metadata'' \<longrightarrow>
      map_of (fst (CheckpointManager_save m name checkpoint metadata now fs)) k =
        map_of checkpoint k) \<and>
   dict_keys checkpoint \<subseteq> dict_keys (fst (CheckpointManager_save m name checkpoint metadata now fs)) \<and>
   dict_keys (fst (CheckpointManager_save m name checkpoint metadata now fs)) \<subseteq>
     dict_keys checkpoint \<union> {''timestamp'', ''metadata''} \<and>
   (map_of checkpoint ''timestamp'' \<noteq> Some (PyStr now) \<longrightarrow>
      fst (CheckpointManager_save m name checkpoint metadata now fs) \<noteq> checkpoint)"
proof -
  let ?c = "fst (CheckpointManager_save m name checkpoint metadata now fs)"
  have c: "?c = save_mutation checkpoint metadata now"
    by (rule save_caller_dict)
  have m: "map_of ?c =
     (if truthy metadata then (map_of checkpoint)(''metadata'' \<mapsto> PyDict (the metadata))
      else map_of checkpoint)(''timestamp'' \<mapsto> PyStr now)"
    unfolding c by (rule map_of_save_mutation)
  have k: "dict_keys ?c =
     {''timestamp''} \<union> (if truthy metadata then {''metadata''} else {}) \<union> dict_keys checkpoint"
    unfolding c by (rule keys_save_mutation)
  have t: "map_of ?c ''timestamp'' = Some (PyStr now)"
    by (simp add: m)
  have changed: "?c \<noteq> checkpoint" if "map_of checkpoint ''timestamp'' \<noteq> Some (PyStr now)"
    using t that by auto
  show ?thesis
    using t changed by (auto simp: m k)
qed

theorem save_mutates_checkpoint_witness:
  "truthy (Some [(''note'', PyStr ''run 1'')]) \<and>
   \<not> truthy None \<and>
   map_of example_checkpoint ''timestamp'' \<noteq> Some (PyStr ''2026-01-01T00:00:00'') \<and>
   map_of (fst (CheckpointManager_save example_manager ''m'' example_checkpoint
                  (Some [(''note'', PyStr ''run 1'')]) ''2026-01-01T00:00:00'' empty_fs))
          ''metadata'' = Some (PyDict [(''note'', PyStr ''run 1'')]) \<and>
   map_of (fst (CheckpointManager_save example_manager ''m'' example_checkpoint
                  (Some [(''note'', PyStr ''run 1'')]) ''2026-01-01T00:00:00'' empty_fs))
          ''episode'' = Some (PyNum 5) \<and>
   fst (CheckpointManager_save example_manager ''m'' example_checkpoint
          (Some [(''note'', PyStr ''run 1'')]) ''2026-01-01T00:00:00'' empty_fs) \<noteq>
     example_checkpoint"
  using save_mutates_checkpoint [of example_manager "''m''" example_checkpoint
      "Some [(''note'', PyStr ''run 1'')]" "''2026-01-01T00:00:00''" empty_fs]
  by (simp add: truthy_def example_checkpoint_def)

text \<open>
  Claim C10 as stated fails for a metadata argument that is supplied but empty:
  \<open>if metadata:\<close> is false for \<open>{}\<close>, and no \<open>'metadata'\<close> key is inserted.
\<close>
theorem save_empty_metadata_adds_no_key:
  "''metadata'' \<notin> dict_keys (fst (CheckpointManager_save example_manager ''m'' example_checkpoint
                    (Some []) ''2026-01-01T00:00:00'' empty_fs))"
proof -
  have "dict_keys example_checkpoint = {''model_state'', ''episode'', ''reward''}"
    by (auto simp: example_checkpoint_def dict_keys_def)
  then show ?thesis
    by (simp add: save_caller_dict keys_save_mutation truthy_def)
qed

lemma load_result:
  "CheckpointManager_load m name device fs =
     Inr (case files fs (load_path m name fs) of Some (Pickle d) \<Rightarrow> Some d | _ \<Rightarrow> None)"
  by (auto simp: CheckpointManager_load_def load_body_def Let_def path_exists_def torch_load_def
           split: option.splits fs_entry.splits sum.splits)

text \<open>
  Claim C9. \<open>load\<close> always returns and never raises: whatever the \<open>try\<close> block raises
  is turned into \<open>None\<close>. When \<open>name\<close> is not a file and \<open>checkpoint_dir/name.pt\<close> does
  not exist, the result is \<open>None\<close>. A direct path to a pickled checkpoint and a bare name
  whose \<open>checkpoint_dir/name.pt\<close> holds one both yield that checkpoint, and a returned
  checkpoint is always the content of the resolved path.
\<close>
theorem load_never_raises:
  "(\<exists>r. CheckpointManager_load m name device fs = Inr r) \<and>
   (\<not> isfile fs name \<and> \<not> path_exists fs (path_join (checkpoint_dir m) (name @ ''.pt'')) \<longrightarrow>
      CheckpointManager_load m name device fs = Inr None) \<and>
   (files fs name = Some (Pickle d) \<longrightarrow>
      CheckpointManager_load m name device fs = Inr (Some d)) \<and>
   (\<not> isfile fs name \<and>
    files fs (path_join (checkpoint_dir m) (name @ ''.pt'')) = Some (Pickle d) \<longrightarrow>
      CheckpointManager_load m name device fs = Inr (Some d)) \<and>
   (\<forall>c. CheckpointManager_load m name device fs = Inr (Some c) \<longrightarrow>
      files fs (load_path m name fs) = Some (Pickle c))"
  by (auto simp: load_result load_path_def isfile_def path_exists_def
           split: option.splits fs_entry.splits)

theorem load_never_raises_witness:
  "\<not> isfile empty_fs ''m'' \<and>
   \<not> path_exists empty_fs (path_join (checkpoint_dir example_manager) (''m'' @ ''.pt'')) \<and>
   CheckpointManager_load example_manager ''m'' None empty_fs = Inr None \<and>
   files stored_fs ''checkpoints/m.pt'' = Some (Pickle example_checkpoint) \<and>
   CheckpointManager_load example_manager ''checkpoints/m.pt'' None stored_fs =
     Inr (Some example_checkpoint) \<and>
   \<not> isfile stored_fs ''m'' \<and>
   files stored_fs (path_join (checkpoint_dir example_manager) (''m'' @ ''.pt'')) =
     Some (Pickle example_checkpoint) \<and>
   CheckpointManager_load example_manager ''m'' None stored_fs = Inr (Some example_checkpoint)"
  using load_never_raises [of example_manager "''m''" None empty_fs example_checkpoint]
    load_never_raises [of example_manager "''checkpoints/m.pt''" None stored_fs example_checkpoint]
    load_never_raises [of example_manager "''m''" None stored_fs example_checkpoint]
  by (simp add: isfile_def path_exists_def empty_fs_def stored_fs_def example_manager_def
        path_join_def)

subsection \<open>No update without data\<close>

text \<open>
  Claim C3. For every agent class, \<open>train_step\<close> on an agent whose buffer is too short
  (replay buffer shorter than the batch size; no stored reward for REINFORCE and
  actor-critic; no stored state for PPO) returns the zero metric and the agent exactly
  as it was: networks, optimizers, scalars and buffers.
\<close>
theorem train_step_without_data:
  "insufficient_data ag \<Longrightarrow> train_step b ag r = Inr (ag, zero_metric ag)"
  by (cases ag)
     (simp_all add: insufficient_data_def train_step_def zero_metric_def
        DQNAgent_train_step_def DoubleDQNAgent_train_step_def
        PolicyGradientAgent_train_step_def ActorCriticAgent_train_step_def
        PPOAgent_train_step_def)

theorem train_step_without_data_witness:
  "insufficient_data (DQN agent_A) \<and>
   train_step idle_backend (DQN agent_A) example_rng = Inr (DQN agent_A, [0]) \<and>
   insufficient_data (PPO gae_agent) \<and>
   train_step idle_backend (PPO gae_agent) example_rng = Inr (PPO gae_agent, [0, 0, 0])"
proof -
  have a: "insufficient_data (DQN agent_A)"
    by (simp add: insufficient_data_def agent_A_def DQNAgent_init_def ReplayBuffer_len_def
          ReplayBuffer_init_def)
  have p: "insufficient_data (PPO gae_agent)"
    by (simp add: insufficient_data_def gae_agent_def PPOAgent_init_def)
  from train_step_without_data [OF a, of idle_backend example_rng]
    train_step_without_data [OF p, of idle_backend example_rng] a p
  show ?thesis by (simp add: zero_metric_def)
qed

subsection \<open>The dueling agent's learning rate\<close>

text \<open>
  Claim C8 fails on the code. \<open>DuelingDQNAgent.__init__\<close> replaces the optimizer by
  \<open>optim.Adam(\<dots>, lr=0.001)\<close>: constructed with \<open>learning_rate = 0.01\<close> the dueling agent
  steps with \<open>0.001\<close>, the base agent with \<open>0.01\<close>, so the two updates differ.
\<close>
theorem dueling_ignores_learning_rate:
  "lr (optimizer (DuelingDQNAgent_init ss as (1/100) g e em ed bs b f w0 w3 w6 f0 v0 v2 a0 a2)) =
     1/1000 \<and>
   lr (optimizer (DQNAgent_init ss as (1/100) g e em ed bs b f w0 w3 w6)) = 1/100"
  by (simp add: DuelingDQNAgent_init_def DQNAgent_init_def Adam_init_def Let_def)

subsection \<open>Greedy choices of the value-based agent under dropout\<close>

lemma net_forward_demo:
  "net_forward (QNet demo_net) draw [x] =
     Inr [if draw 1 0 then max 0 (if draw 0 0 then max 0 x / (1 - 0.2) else 0) / (1 - 0.2) else 0, 1]"
  by (simp only: net_forward_def net.case demo_forward)

lemma select_greedy_demo:
  assumes "q_network ag = QNet demo_net" and "action_size ag = 2"
  shows "DQNAgent_select_action ag [1] [0, 1] False u k draw =
           Inr (if draw 1 0 \<and> draw 0 0 then 0 else 1)"
  using assms
  by (simp add: DQNAgent_select_action_def net_forward_demo np_index_def argmax_def
        numeral_2_eq_2)

lemma agent_A_fields: "q_network agent_A = QNet demo_net" "action_size agent_A = 2"
  by (simp_all add: agent_A_def DQNAgent_init_def demo_net_def)

lemma agent_B_restored_eq:
  "agent_B_restored =
     Inr (agent_B\<lparr>q_network := QNet demo_net, target_network := QNet demo_net,
                  optimizer := optimizer agent_A, epsilon := 1\<rparr>)"
  by (simp add: agent_B_restored_def DQNAgent_load_state_dict_def DQNAgent_state_dict_def
        sd_net_def sd_opt_def agent_A_def agent_B_def DQNAgent_init_def net_state_dict_def
        QNetwork_init_def demo_net_def Linear_dims_def
        demo_w0_def demo_w3_def demo_w6_def zero_w0_def zero_w3_def zero_w6_def)

text \<open>
  Claim C4 fails on the code. The networks keep \<open>nn.Dropout(0.2)\<close> active in
  \<open>select_action\<close>, because no agent ever calls \<open>.eval()\<close>. For the same state and the
  same available actions, \<open>agent_A\<close> chooses action 0 under one dropout draw, and the
  agent restored from its \<open>state_dict\<close> chooses action 1 under another; so does \<open>agent_A\<close>
  itself on a second call.
\<close>
theorem greedy_action_not_reproducible:
  "greedy_action (Inr agent_A) keep_all = Inr 0 \<and>
   greedy_action agent_B_restored drop_first = Inr 1 \<and>
   greedy_action (Inr agent_A) drop_first = Inr 1 \<and>
   greedy_action agent_B_restored keep_all = Inr 0"
proof -
  have b: "action_size agent_B = 2"
    by (simp add: agent_B_def DQNAgent_init_def)
  show ?thesis
    by (simp add: greedy_action_def agent_B_restored_eq select_greedy_demo agent_A_fields b
          keep_all_def drop_first_def)
qed

subsection \<open>The exploration rate after an update\<close>

lemma floor_agent_fields:
  "q_network floor_agent = QNet demo_net" "target_network floor_agent = QNet demo_net"
  "buffer (memory floor_agent) = [([1], 0, 1, [1], False)]"
  "batch_size floor_agent = 1" "target_update_freq floor_agent = 10"
  "update_counter floor_agent = 0" "epsilon floor_agent = 1"
  "epsilon_min floor_agent = 3/5" "epsilon_decay floor_agent = 1/2"
  by (simp_all add: floor_agent_def DQNAgent_remember_def DQNAgent_init_def demo_net_def
        ReplayBuffer_push_def ReplayBuffer_init_def deque_append_def)

text \<open>
  Claim C2 fails on the code. \<open>train_step\<close> multiplies \<open>epsilon\<close> by \<open>epsilon_decay\<close> whenever
  it is above the floor, without clamping the product: with \<open>epsilon = 1\<close>,
  \<open>epsilon_min = 0.6\<close> and \<open>epsilon_decay = 0.5\<close> one completed update leaves
  \<open>epsilon = 0.5\<close>, below the floor, for every backend.
\<close>
theorem epsilon_falls_below_floor:
  "\<exists>agent' loss.
     DQNAgent_train_step optimize floor_agent [0] draws = Inr (agent', loss) \<and>
     epsilon_min agent' = 3/5 \<and> epsilon agent' = 1/2 \<and> epsilon agent' < epsilon_min agent'"
  by (simp add: DQNAgent_train_step_def ReplayBuffer_len_def ReplayBuffer_sample_def
        floor_agent_fields net_forward_demo argmax_def dqn_apply_update_def Let_def
        split_beta)

subsection \<open>The Double DQN target\<close>

lemma argmax_Inr:
  assumes "argmax xs = Inr j"
  shows "j < length xs \<and> (\<forall>k<length xs. xs ! k \<le> xs ! j)"
proof -
  from assms have "xs \<noteq> []" by (auto simp: argmax_def)
  from argmax_max [OF this] assms show ?thesis by auto
qed

lemma forward_batch_Inr:
  "forward_batch n draws i ss = Inr qs \<Longrightarrow>
   length qs = length ss \<and> (\<forall>j<length ss. net_forward n (draws (i + j)) (ss ! j) = Inr (qs ! j))"
proof (induction ss arbitrary: i qs)
  case Nil
  then show ?case by simp
next
  case (Cons s ss)
  from Cons.prems obtain q rest where
    q: "net_forward n (draws i) s = Inr q" and
    rest: "forward_batch n draws (Suc i) ss = Inr rest" and
    qs: "qs = q # rest"
    by (auto simp: bind_err_eq_Inr)
  from Cons.IH [OF rest] have
    ih: "length rest = length ss"
        "\<forall>j<length ss. net_forward n (draws (Suc i + j)) (ss ! j) = Inr (rest ! j)"
    by simp_all
  have "net_forward n (draws (i + j)) ((s # ss) ! j) = Inr (qs ! j)" if "j < length (s # ss)" for j
  proof (cases j)
    case 0
    with q qs show ?thesis by simp
  next
    case (Suc j')
    with that ih(2) qs show ?thesis by simp
  qed
  with ih(1) qs show ?case by simp
qed

lemma max_indices_Inr:
  "max_indices rows = Inr js \<Longrightarrow>
   length js = length rows \<and> (\<forall>i<length rows. argmax (rows ! i) = Inr (js ! i))"
proof (induction rows arbitrary: js)
  case Nil
  then show ?case by simp
next
  case (Cons row rows)
  from Cons.prems obtain j rest where
    j: "argmax row = Inr j" and rest: "max_indices rows = Inr rest" and js: "js = j # rest"
    by (auto simp: bind_err_eq_Inr)
  from Cons.IH [OF rest] have
    ih: "length rest = length rows" "\<forall>i<length rows. argmax (rows ! i) = Inr (rest ! i)"
    by simp_all
  have "argmax ((row # rows) ! i) = Inr (js ! i)" if "i < length (row # rows)" for i
    using that j js ih(2) by (cases i) simp_all
  with ih(1) js show ?case by simp
qed

lemma gather_Inr:
  "gather rows idxs = Inr vs \<Longrightarrow>
   length vs = length rows \<and> length idxs = length rows \<and>
   (\<forall>i<length rows. 0 \<le> idxs ! i \<and> idxs ! i < int (length (rows ! i)) \<and>
                     vs ! i = rows ! i ! nat (idxs ! i))"
proof (induction rows idxs arbitrary: vs rule: gather.induct)
  case (2 row rows i idxs)
  from "2.prems" have ok: "0 \<le> i \<and> i < int (length row)"
    by (auto split: if_splits)
  with "2.prems" obtain rest where
    rest: "gather rows idxs = Inr rest" and vs: "vs = row ! nat i # rest"
    by (auto simp: bind_err_eq_Inr)
  from "2.IH" [OF ok rest] have
    ih: "length rest = length rows" "length idxs = length rows"
        "\<forall>k<length rows. 0 \<le> idxs ! k \<and> idxs ! k < int (length (rows ! k)) \<and>
                         rest ! k = rows ! k ! nat (idxs ! k)"
    by simp_all
  have "0 \<le> (i # idxs) ! k \<and> (i # idxs) ! k < int (length ((row # rows) ! k)) \<and>
        vs ! k = (row # rows) ! k ! nat ((i # idxs) ! k)" if "k < length (row # rows)" for k
    using that ok vs ih(3) by (cases k) simp_all
  with ih(1,2) vs show ?case by simp
qed simp_all

lemma bootstrap_target_nth:
  assumes "i < length batch" and "length next_q = length batch"
    and "batch ! i = (s, a, r, s', dn)"
  shows "bootstrap_target g batch next_q ! i = r + (1 - of_bool dn) * g * next_q ! i"
  using assms by (simp add: bootstrap_target_def)

lemma double_dqn_target_nth:
  assumes tq: "double_dqn_target agent batch d1 d2 = Inr target_q"
    and i: "i < length batch" and bi: "batch ! i = (s, a, r, s', dn)"
  shows "length target_q = length batch \<and>
         (\<exists>q q' j. net_forward (q_network agent) (d1 i) s' = Inr q \<and>
                   net_forward (target_network agent) (d2 i) s' = Inr q' \<and>
                   argmax q = Inr j \<and> j < length q \<and> (\<forall>k<length q. q ! k \<le> q ! j) \<and>
                   j < length q' \<and>
                   target_q ! i = r + (1 - of_bool dn) * gamma agent * q' ! j)"
proof -
  let ?next = "map (\<lambda>(s, a, r, s', d). s') batch"
  from tq obtain oqs next_actions tqs next_q where
    oqs: "forward_batch (q_network agent) d1 0 ?next = Inr oqs" and
    na: "max_indices oqs = Inr next_actions" and
    tqs: "forward_batch (target_network agent) d2 0 ?next = Inr tqs" and
    nq: "gather tqs (map int next_actions) = Inr next_q" and
    res: "target_q = bootstrap_target (gamma agent) batch next_q"
    unfolding double_dqn_target_def bind_err_eq_Inr by auto
  have ni: "?next ! i = s'" using i bi by simp
  from forward_batch_Inr [OF oqs] i ni have
    lo: "length oqs = length batch" and
    fo: "net_forward (q_network agent) (d1 i) s' = Inr (oqs ! i)"
    by auto
  from forward_batch_Inr [OF tqs] i ni have
    lt: "length tqs = length batch" and
    ft: "net_forward (target_network agent) (d2 i) s' = Inr (tqs ! i)"
    by auto
  from max_indices_Inr [OF na] lo i have
    ln: "length next_actions = length batch" and
    am: "argmax (oqs ! i) = Inr (next_actions ! i)"
    by auto
  from gather_Inr [OF nq] lt i ln have
    lq: "length next_q = length batch" and
    jb: "next_actions ! i < length (tqs ! i)" and
    gv: "next_q ! i = tqs ! i ! (next_actions ! i)"
    by auto
  have "target_q ! i = r + (1 - of_bool dn) * gamma agent * tqs ! i ! (next_actions ! i)"
    unfolding res using bootstrap_target_nth [OF i lq bi] gv by simp
  moreover have "length target_q = length batch"
    unfolding res using lq by (simp add: bootstrap_target_def)
  ultimately show ?thesis
    using fo ft am argmax_Inr [OF am] jb by blast
qed

text \<open>
  Claim C7. A completed \<open>DoubleDQNAgent.train_step\<close> samples a batch, computes
  \<open>current_q\<close> as the online network's Q-values of the sampled states at the sampled
  actions, and computes for every sampled transition \<open>(s, a, r, s', done)\<close> the target
  \<open>r + (1 - done) * gamma * Q'(s')[a*]\<close>, where \<open>a*\<close> is a largest entry of the online
  network's \<open>Q(s')\<close> and \<open>Q'\<close> is the target network. The returned loss is the mean squared
  error of \<open>current_q\<close> against these targets, and the new online network and optimizer
  are what the differentiation backend returns for the objective built from exactly
  these targets. In that objective the targets are fixed numbers: whatever online
  parameters the backend evaluates it at, only \<open>current_q\<close> is recomputed, so no
  gradient flows through the targets.
\<close>
theorem double_dqn_target_formula:
  assumes run: "DoubleDQNAgent_train_step optimize agent idxs draws = Inr (agent', loss)"
    and enough: "\<not> int (ReplayBuffer_len (memory agent)) < batch_size agent"
  shows "\<exists>batch qs current_q target_q.
     ReplayBuffer_sample (memory agent) (batch_size agent) idxs = Inr batch \<and>
     forward_batch (q_network agent) (draws 0) 0 (map (\<lambda>(s, a, r, s', d). s) batch) = Inr qs \<and>
     gather qs (map (\<lambda>(s, a, r, s', d). a) batch) = Inr current_q \<and>
     double_dqn_target agent batch (draws 1) (draws 2) = Inr target_q \<and>
     length target_q = length batch \<and>
     (\<forall>i<length batch.
        case batch ! i of (s, a, r, s', dn) \<Rightarrow>
          \<exists>q q' j. net_forward (q_network agent) (draws 1 i) s' = Inr q \<and>
                   net_forward (target_network agent) (draws 2 i) s' = Inr q' \<and>
                   argmax q = Inr j \<and> (\<forall>k<length q. q ! k \<le> q ! j) \<and> j < length q' \<and>
                   target_q ! i = r + (1 - of_bool dn) * gamma agent * q' ! j) \<and>
     loss = MSELoss current_q target_q \<and>
     dqn_objective batch target_q (draws 0) (q_network agent) = Inr loss \<and>
     q_network agent' =
       fst (optimize (q_network agent) (optimizer agent) (dqn_objective batch target_q (draws 0))) \<and>
     optimizer agent' =
       snd (optimize (q_network agent) (optimizer agent) (dqn_objective batch target_q (draws 0))) \<and>
     (\<forall>theta qs' current_q'.
        forward_batch theta (draws 0) 0 (map (\<lambda>(s, a, r, s', d). s) batch) = Inr qs' \<and>
        gather qs' (map (\<lambda>(s, a, r, s', d). a) batch) = Inr current_q' \<longrightarrow>
        dqn_objective batch target_q (draws 0) theta = Inr (MSELoss current_q' target_q))"
proof -
  from run enough obtain batch qs current_q target_q where
    batch: "ReplayBuffer_sample (memory agent) (batch_size agent) idxs = Inr batch" and
    fq: "forward_batch (q_network agent) (draws 0) 0 (map (\<lambda>(s, a, r, s', d). s) batch) = Inr qs" and
    cq: "gather qs (map (\<lambda>(s, a, r, s', d). a) batch) = Inr current_q" and
    tq: "double_dqn_target agent batch (draws 1) (draws 2) = Inr target_q" and
    upd: "dqn_apply_update optimize agent batch current_q target_q (draws 0) = Inr (agent', loss)"
    by (auto simp: DoubleDQNAgent_train_step_def bind_err_eq_Inr)
  let ?objective = "dqn_objective batch target_q (draws 0)"
  let ?step = "optimize (q_network agent) (optimizer agent) ?objective"
  have loss: "loss = MSELoss current_q target_q"
    using upd
    by (auto simp: dqn_apply_update_def Let_def bind_err_eq_Inr split_beta split: if_splits)
  have qn: "q_network agent' = fst ?step"
    using upd
    by (auto simp: dqn_apply_update_def Let_def bind_err_eq_Inr split_beta split: if_splits)
  have opt: "optimizer agent' = snd ?step"
    using upd
    by (auto simp: dqn_apply_update_def Let_def bind_err_eq_Inr split_beta split: if_splits)
  have here: "?objective (q_network agent) = Inr loss"
    using fq cq loss by (simp add: dqn_objective_def)
  have fixed_target: "?objective theta = Inr (MSELoss current_q' target_q)"
    if "forward_batch theta (draws 0) 0 (map (\<lambda>(s, a, r, s', d). s) batch) = Inr qs' \<and>
        gather qs' (map (\<lambda>(s, a, r, s', d). a) batch) = Inr current_q'"
    for theta qs' current_q'
    using that by (simp add: dqn_objective_def)
  have each: "case batch ! i of (s, a, r, s', dn) \<Rightarrow>
          \<exists>q q' j. net_forward (q_network agent) (draws 1 i) s' = Inr q \<and>
                   net_forward (target_network agent) (draws 2 i) s' = Inr q' \<and>
                   argmax q = Inr j \<and> (\<forall>k<length q. q ! k \<le> q ! j) \<and> j < length q' \<and>
                   target_q ! i = r + (1 - of_bool dn) * gamma agent * q' ! j"
    if i: "i < length batch" for i
  proof -
    obtain s a r s' dn where bi: "batch ! i = (s, a, r, s', dn)"
      by (cases "batch ! i") auto
    from double_dqn_target_nth [OF tq i bi] show ?thesis
      unfolding bi by auto
  qed
  have len: "length target_q = length batch"
  proof (cases batch)
    case Nil
    with tq show ?thesis
      by (simp add: double_dqn_target_def bootstrap_target_def)
  next
    case (Cons t ts)
    obtain s a r s' dn where "batch ! 0 = (s, a, r, s', dn)"
      by (cases "batch ! 0") auto
    from double_dqn_target_nth [OF tq _ this] Cons show ?thesis by simp
  qed
  from batch fq cq tq len each loss here qn opt fixed_target show ?thesis
    by blast
qed

lemma floor_agent_gamma: "gamma floor_agent = 99/100"
  by (simp add: floor_agent_def DQNAgent_remember_def DQNAgent_init_def)

theorem double_dqn_target_formula_witness:
  "\<not> int (ReplayBuffer_len (memory floor_agent)) < batch_size floor_agent \<and>
   double_dqn_target floor_agent [([1], 0, 1, [1], False)] (keep_all_batch 1) (keep_all_batch 2) =
     Inr [163/64] \<and>
   (\<exists>agent' loss.
      DoubleDQNAgent_train_step idle_optimize floor_agent [0] keep_all_batch = Inr (agent', loss) \<and>
      (\<exists>batch qs current_q target_q.
         ReplayBuffer_sample (memory floor_agent) (batch_size floor_agent) [0] = Inr batch \<and>
         gather qs (map (\<lambda>(s, a, r, s', d). a) batch) = Inr current_q \<and>
         double_dqn_target floor_agent batch (keep_all_batch 1) (keep_all_batch 2) = Inr target_q \<and>
         loss = MSELoss current_q target_q \<and> length target_q = length batch \<and>
         q_network agent' =
           fst (idle_optimize (q_network floor_agent) (optimizer floor_agent)
                  (dqn_objective batch target_q (keep_all_batch 0)))))"
proof -
  have enough: "\<not> int (ReplayBuffer_len (memory floor_agent)) < batch_size floor_agent"
    by (simp add: floor_agent_fields ReplayBuffer_len_def)
  have target: "double_dqn_target floor_agent [([1], 0, 1, [1], False)]
                  (keep_all_batch 1) (keep_all_batch 2) = Inr [163/64]"
    by (simp add: double_dqn_target_def floor_agent_fields floor_agent_gamma net_forward_demo
          argmax_def bootstrap_target_def keep_all_batch_def keep_all_def)
  have "\<exists>agent' loss.
      DoubleDQNAgent_train_step idle_optimize floor_agent [0] keep_all_batch = Inr (agent', loss)"
    using target
    by (simp add: DoubleDQNAgent_train_step_def ReplayBuffer_len_def ReplayBuffer_sample_def
          floor_agent_fields net_forward_demo dqn_apply_update_def Let_def split_beta
          keep_all_batch_def keep_all_def)
  then obtain agent' loss where
    run: "DoubleDQNAgent_train_step idle_optimize floor_agent [0] keep_all_batch = Inr (agent', loss)"
    by blast
  from double_dqn_target_formula [OF run enough] run enough target show ?thesis
    by blast
qed

subsection \<open>Sampling from the masked policy\<close>



lemma length_softmax [simp]: "length (softmax xs) = length xs"
  by (simp add: softmax_def Let_def)






















end
